theory Spec2Isabelle
  imports Complex_Main
begin

section \<open>Numbers and arrays of the numerical libraries\<close>

text \<open>
  The notebook \<^verbatim>\<open>class_tutorial.ipynb\<close> trains a linear model by gradient descent
  three times: with NumPy alone (\<^verbatim>\<open>LinearRegression\<close>), with NumPy-style code and
  PyTorch's automatic differentiation (\<^verbatim>\<open>MixedLinearRegression\<close>), and with PyTorch's
  own layer, loss and optimizer (\<^verbatim>\<open>LinReg\<close> and \<^verbatim>\<open>train\<close>).

  Array elements are floating-point numbers. Rounding is abstracted away: a number is an
  exact real, or one of the three special values that the libraries produce instead of
  raising an exception. In exact arithmetic the special values only arise from a division
  by zero: \<open>0 / 0\<close> is \<open>NaN\<close> and \<open>x / 0\<close> is an infinity with the sign of \<open>x\<close> (NumPy
  prints a warning and goes on). Signed zeros are not modelled. What is proved of the
  operations below is therefore proved of the exact arithmetic that \<^verbatim>\<open>float64\<close> (NumPy) and
  \<^verbatim>\<open>float32\<close> (the notebook's tensors) approximate; the largest number of each format, beyond
  which an operation returns an infinity, is the subject of the last section of the
  definitions.
\<close>

datatype npfloat = Num real | PInf | NInf | NaN

text \<open>The infinity with the sign of \<open>s\<close>; \<open>NaN\<close> when \<open>s\<close> is zero.\<close>

definition finf :: "real \<Rightarrow> npfloat" where
  "finf s = (if s = 0 then NaN else if 0 < s then PInf else NInf)"

fun fneg :: "npfloat \<Rightarrow> npfloat" where
  "fneg (Num a) = Num (- a)"
| "fneg PInf = NInf"
| "fneg NInf = PInf"
| "fneg NaN = NaN"

fun fadd :: "npfloat \<Rightarrow> npfloat \<Rightarrow> npfloat" where
  "fadd (Num a) (Num b) = Num (a + b)"
| "fadd NaN y = NaN"
| "fadd x NaN = NaN"
| "fadd PInf NInf = NaN"
| "fadd NInf PInf = NaN"
| "fadd PInf y = PInf"
| "fadd x PInf = PInf"
| "fadd NInf y = NInf"
| "fadd x NInf = NInf"

definition fsub :: "npfloat \<Rightarrow> npfloat \<Rightarrow> npfloat" where
  "fsub x y = fadd x (fneg y)"

fun fmul :: "npfloat \<Rightarrow> npfloat \<Rightarrow> npfloat" where
  "fmul (Num a) (Num b) = Num (a * b)"
| "fmul NaN y = NaN"
| "fmul x NaN = NaN"
| "fmul (Num a) PInf = finf a"
| "fmul (Num a) NInf = finf (- a)"
| "fmul PInf (Num b) = finf b"
| "fmul NInf (Num b) = finf (- b)"
| "fmul PInf PInf = PInf"
| "fmul PInf NInf = NInf"
| "fmul NInf PInf = NInf"
| "fmul NInf NInf = PInf"

fun fdiv :: "npfloat \<Rightarrow> npfloat \<Rightarrow> npfloat" where
  "fdiv (Num a) (Num b) = (if b = 0 then finf a else Num (a / b))"
| "fdiv NaN y = NaN"
| "fdiv x NaN = NaN"
| "fdiv (Num a) PInf = Num 0"
| "fdiv (Num a) NInf = Num 0"
| "fdiv PInf (Num b) = (if 0 \<le> b then PInf else NInf)"
| "fdiv NInf (Num b) = (if 0 \<le> b then NInf else PInf)"
| "fdiv PInf PInf = NaN"
| "fdiv PInf NInf = NaN"
| "fdiv NInf PInf = NaN"
| "fdiv NInf NInf = NaN"

text \<open>\<^verbatim>\<open>x ** n\<close> for an integer exponent \<open>n \<ge> 0\<close>; \<open>x ** 0\<close> is \<open>1\<close> for every \<open>x\<close>.\<close>

fun fpow :: "npfloat \<Rightarrow> nat \<Rightarrow> npfloat" where
  "fpow x 0 = Num 1"
| "fpow x (Suc n) = fmul x (fpow x n)"

fun fsum :: "npfloat list \<Rightarrow> npfloat" where
  "fsum [] = Num 0"
| "fsum (x # xs) = fadd x (fsum xs)"

text \<open>
  A one-dimensional array is the list of its elements. A two-dimensional array of shape
  \<open>(nrows, ncols)\<close> is the list of its rows together with \<open>ncols\<close>, which the rows cannot
  tell when there are none.
\<close>

type_synonym ndarray1 = "npfloat list"

record ndarray2 =
  ncols :: nat
  rows :: "npfloat list list"

definition nrows :: "ndarray2 \<Rightarrow> nat" where
  "nrows A = length (rows A)"

definition wf2 :: "ndarray2 \<Rightarrow> bool" where
  "wf2 A = list_all (\<lambda>r. length r = ncols A) (rows A)"

definition col :: "ndarray2 \<Rightarrow> nat \<Rightarrow> npfloat list" where
  "col A j = map (\<lambda>r. r ! j) (rows A)"

text \<open>\<^verbatim>\<open>A.T\<close> (\<^verbatim>\<open>A.t()\<close> in PyTorch).\<close>

definition transpose2 :: "ndarray2 \<Rightarrow> ndarray2" where
  "transpose2 A = \<lparr>ncols = nrows A, rows = map (col A) [0..<ncols A]\<rparr>"

text \<open>\<^verbatim>\<open>zeros((k, n))\<close>.\<close>

definition zeros2 :: "nat \<Rightarrow> nat \<Rightarrow> ndarray2" where
  "zeros2 k n = \<lparr>ncols = n, rows = replicate k (replicate n (Num 0))\<rparr>"

definition dot1 :: "npfloat list \<Rightarrow> npfloat list \<Rightarrow> npfloat" where
  "dot1 a b = fsum (map2 fmul a b)"

text \<open>The matrix product and the matrix-vector product, once the shapes have been checked.\<close>

definition mm :: "ndarray2 \<Rightarrow> ndarray2 \<Rightarrow> ndarray2" where
  "mm A B = \<lparr>ncols = ncols B,
             rows = map (\<lambda>r. map (\<lambda>j. dot1 r (col B j)) [0..<ncols B]) (rows A)\<rparr>"

definition mv :: "ndarray2 \<Rightarrow> npfloat list \<Rightarrow> npfloat list" where
  "mv A v = map (\<lambda>r. dot1 r v) (rows A)"

subsection \<open>Exceptions\<close>

text \<open>
  NumPy raises \<open>ValueError\<close> and PyTorch \<open>RuntimeError\<close> on shapes that do not fit;
  reading an attribute of \<^verbatim>\<open>None\<close> raises \<open>AttributeError\<close>.
\<close>

datatype error = ValueError | RuntimeError | AttributeError

definition ebind :: "error + 'a \<Rightarrow> ('a \<Rightarrow> error + 'b) \<Rightarrow> error + 'b" where
  "ebind r f = (case r of Inl e \<Rightarrow> Inl e | Inr x \<Rightarrow> f x)"

subsection \<open>The NumPy operations the notebook calls\<close>

text \<open>\<^verbatim>\<open>np.dot(A, B)\<close> on two-dimensional arrays, and on a two- and a one-dimensional one.\<close>

definition np_dot :: "ndarray2 \<Rightarrow> ndarray2 \<Rightarrow> error + ndarray2" where
  "np_dot A B = (if ncols A \<noteq> nrows B then Inl ValueError else Inr (mm A B))"

definition np_dot_vec :: "ndarray2 \<Rightarrow> ndarray1 \<Rightarrow> error + ndarray1" where
  "np_dot_vec A v = (if ncols A \<noteq> length v then Inl ValueError else Inr (mv A v))"

text \<open>\<^verbatim>\<open>A.squeeze(-1)\<close>: NumPy refuses an axis whose length is not one.\<close>

definition np_squeeze :: "ndarray2 \<Rightarrow> error + ndarray1" where
  "np_squeeze A = (if ncols A \<noteq> 1 then Inl ValueError else Inr (col A 0))"

text \<open>
  \<^verbatim>\<open>a - b\<close> on one-dimensional arrays, with broadcasting: an array of length one is
  stretched to the length of the other.
\<close>

definition np_sub :: "ndarray1 \<Rightarrow> ndarray1 \<Rightarrow> error + ndarray1" where
  "np_sub a b =
     (if length a = length b then Inr (map2 fsub a b)
      else if length b = 1 then Inr (map (\<lambda>x. fsub x (b ! 0)) a)
      else if length a = 1 then Inr (map (\<lambda>y. fsub (a ! 0) y) b)
      else Inl ValueError)"

text \<open>
  \<^verbatim>\<open>A - v\<close> for a two-dimensional \<open>A\<close> and a one-dimensional \<open>v\<close>: \<open>v\<close> is subtracted from
  each row, after broadcasting along the last axis.
\<close>

definition np_sub_rows :: "ndarray2 \<Rightarrow> ndarray1 \<Rightarrow> error + ndarray2" where
  "np_sub_rows A v =
     (if ncols A = length v then Inr \<lparr>ncols = ncols A, rows = map (\<lambda>r. map2 fsub r v) (rows A)\<rparr>
      else if length v = 1
        then Inr \<lparr>ncols = ncols A, rows = map (map (\<lambda>x. fsub x (v ! 0))) (rows A)\<rparr>
      else if ncols A = 1
        then Inr \<lparr>ncols = length v, rows = map (\<lambda>r. map (\<lambda>y. fsub (r ! 0) y) v) (rows A)\<rparr>
      else Inl ValueError)"

text \<open>\<^verbatim>\<open>c * v\<close> and \<^verbatim>\<open>v / c\<close> for a scalar \<open>c\<close>; \<^verbatim>\<open>np.power(v, n)\<close>; \<^verbatim>\<open>np.mean(v)\<close>.\<close>

definition scalar_mul :: "npfloat \<Rightarrow> ndarray1 \<Rightarrow> ndarray1" where
  "scalar_mul c v = map (fmul c) v"

definition scalar_div :: "ndarray1 \<Rightarrow> npfloat \<Rightarrow> ndarray1" where
  "scalar_div v c = map (\<lambda>x. fdiv x c) v"

definition np_power :: "ndarray1 \<Rightarrow> nat \<Rightarrow> ndarray1" where
  "np_power v n = map (\<lambda>x. fpow x n) v"

definition np_mean :: "ndarray1 \<Rightarrow> npfloat" where
  "np_mean v = fdiv (fsum v) (Num (real (length v)))"

section \<open>\<^verbatim>\<open>LinearRegression\<close>: gradient descent with NumPy alone\<close>

text \<open>
  \<^verbatim>\<open>
  class LinearRegression(object):
      def __init__(self, n_features, n_targets=1, lr=0.01):
          self.W = np.zeros((n_targets, n_features))
          self.lr = lr
  \<close>
  A method takes the object and returns it with its result, so that what a method
  leaves unchanged is a property of the model and not of its types.
\<close>

record LinearRegression =
  W :: ndarray2
  lr :: real

definition LinearRegression_init :: "nat \<Rightarrow> nat \<Rightarrow> real \<Rightarrow> LinearRegression" where
  "LinearRegression_init n_features n_targets lr0 =
     \<lparr>W = zeros2 n_targets n_features, lr = lr0\<rparr>"

text \<open>
  \<^verbatim>\<open>
      def predict(self, X):
          y_hat = np.dot(X, self.W.T)
          return y_hat.squeeze(-1)
  \<close>
\<close>

definition LinearRegression_predict ::
  "LinearRegression \<Rightarrow> ndarray2 \<Rightarrow> error + (ndarray1 \<times> LinearRegression)" where
  "LinearRegression_predict self X =
     ebind (np_dot X (transpose2 (W self))) (\<lambda>y_hat.
     ebind (np_squeeze y_hat) (\<lambda>r. Inr (r, self)))"

text \<open>
  \<^verbatim>\<open>
      def loss(self, y_hat, y):
          return np.mean(np.power(y_hat - y, 2))
  \<close>
\<close>

definition LinearRegression_loss ::
  "LinearRegression \<Rightarrow> ndarray1 \<Rightarrow> ndarray1 \<Rightarrow> error + (npfloat \<times> LinearRegression)" where
  "LinearRegression_loss self y_hat y =
     ebind (np_sub y_hat y) (\<lambda>d. Inr (np_mean (np_power d 2), self))"

text \<open>
  \<^verbatim>\<open>
      def update_weight(self, X, y):
          m = X.shape[0]
          y_hat = self.predict(X)
          W_grad = 2 * np.dot(X.T, y_hat - y) / m
          self.W = self.W - self.lr * W_grad
  \<close>
  \<open>LinearRegression_W_grad\<close> is the value of the local variable \<^verbatim>\<open>W_grad\<close>, a
  one-dimensional array.
\<close>

definition LinearRegression_W_grad :: "ndarray2 \<Rightarrow> ndarray1 \<Rightarrow> ndarray1 \<Rightarrow> error + ndarray1" where
  "LinearRegression_W_grad X y_hat y =
     (let m = nrows X in
      ebind (np_sub y_hat y) (\<lambda>d.
      ebind (np_dot_vec (transpose2 X) d) (\<lambda>g.
      Inr (scalar_div (scalar_mul (Num 2) g) (Num (real m))))))"

definition LinearRegression_update_weight ::
  "LinearRegression \<Rightarrow> ndarray2 \<Rightarrow> ndarray1 \<Rightarrow> error + LinearRegression" where
  "LinearRegression_update_weight self X y =
     ebind (LinearRegression_predict self X) (\<lambda>(y_hat, self).
     ebind (LinearRegression_W_grad X y_hat y) (\<lambda>W_grad.
     ebind (np_sub_rows (W self) (scalar_mul (Num (lr self)) W_grad)) (\<lambda>W'.
     Inr (self\<lparr>W := W'\<rparr>))))"

text \<open>
  \<^verbatim>\<open>
      def train(self, X, y, epochs=50):
          """
          X (n_examples x n_features):
          y (n_examples): gold labels
          """
          loss_history = []
          for _ in range(epochs):
              # for x_i, y_i in zip(X, y):
              #        self.update_weight(x_i, y_i)
              self.update_weight(X, y)
              y_hat = self.predict(X)
              loss = self.loss(y_hat, y)
              loss_history.append(loss)
          return loss_history
  \<close>
  As the docstring says, \<open>X\<close> is a two-dimensional and \<open>y\<close> a one-dimensional array.
  \<^verbatim>\<open>range(epochs)\<close> is empty for a negative \<open>epochs\<close>.
\<close>

fun LinearRegression_train_loop ::
  "nat \<Rightarrow> LinearRegression \<Rightarrow> ndarray2 \<Rightarrow> ndarray1 \<Rightarrow> npfloat list
     \<Rightarrow> error + (npfloat list \<times> LinearRegression)" where
  "LinearRegression_train_loop 0 self X y loss_history = Inr (loss_history, self)"
| "LinearRegression_train_loop (Suc k) self X y loss_history =
     ebind (LinearRegression_update_weight self X y) (\<lambda>self.
     ebind (LinearRegression_predict self X) (\<lambda>(y_hat, self).
     ebind (LinearRegression_loss self y_hat y) (\<lambda>(loss, self).
     LinearRegression_train_loop k self X y (loss_history @ [loss]))))"

definition LinearRegression_train ::
  "LinearRegression \<Rightarrow> ndarray2 \<Rightarrow> ndarray1 \<Rightarrow> int
     \<Rightarrow> error + (npfloat list \<times> LinearRegression)" where
  "LinearRegression_train self X y epochs =
     LinearRegression_train_loop (nat epochs) self X y []"

section \<open>\<^verbatim>\<open>MixedLinearRegression\<close>: gradients from PyTorch's automatic differentiation\<close>

subsection \<open>Tensors that record how they were computed\<close>

text \<open>
  A tensor computed from a parameter that requires a gradient carries its value and its
  backward function: the map from the gradient of a scalar with respect to the tensor to
  the gradient of that scalar with respect to the parameter (of type \<open>'g\<close>). Each PyTorch
  operation extends the backward function of its argument by its own rule, and
  \<^verbatim>\<open>backward()\<close> runs the backward function of the loss on \<open>1\<close>. The inputs \<open>X\<close> and
  \<open>y\<close> of the notebook require no gradient and are plain arrays.
\<close>

type_synonym 'g tensor0 = "npfloat \<times> (npfloat \<Rightarrow> 'g)"
type_synonym 'g tensor1 = "ndarray1 \<times> (ndarray1 \<Rightarrow> 'g)"
type_synonym 'g tensor2 = "ndarray2 \<times> (ndarray2 \<Rightarrow> 'g)"

datatype 'g tensor = Tensor1 "'g tensor1" | Tensor2 "'g tensor2"

definition torch_t :: "'g tensor2 \<Rightarrow> 'g tensor2" where
  "torch_t A = (transpose2 (fst A), \<lambda>G. snd A (transpose2 G))"

definition torch_matmul :: "ndarray2 \<Rightarrow> 'g tensor2 \<Rightarrow> error + 'g tensor2" where
  "torch_matmul X B =
     (if ncols X \<noteq> nrows (fst B) then Inl RuntimeError
      else Inr (mm X (fst B), \<lambda>G. snd B (mm (transpose2 X) G)))"

definition unsqueeze :: "ndarray1 \<Rightarrow> ndarray2" where
  "unsqueeze v = \<lparr>ncols = 1, rows = map (\<lambda>x. [x]) v\<rparr>"

text \<open>\<^verbatim>\<open>A.squeeze(-1)\<close>: PyTorch returns the tensor as it is when the last axis is not of length one.\<close>

definition torch_squeeze :: "'g tensor2 \<Rightarrow> 'g tensor" where
  "torch_squeeze A =
     (if ncols (fst A) = 1 then Tensor1 (col (fst A) 0, \<lambda>g. snd A (unsqueeze g))
      else Tensor2 A)"

text \<open>
  \<^verbatim>\<open>a - y\<close> with broadcasting along the last axis. Where \<open>a\<close> itself was stretched, its
  gradient is the sum over the copies.
\<close>

fun torch_sub :: "'g tensor \<Rightarrow> ndarray1 \<Rightarrow> error + 'g tensor" where
  "torch_sub (Tensor1 (a, bk)) y =
     (if length a = length y then Inr (Tensor1 (map2 fsub a y, bk))
      else if length y = 1 then Inr (Tensor1 (map (\<lambda>x. fsub x (y ! 0)) a, bk))
      else if length a = 1
        then Inr (Tensor1 (map (\<lambda>b. fsub (a ! 0) b) y, \<lambda>g. bk [fsum g]))
      else Inl RuntimeError)"
| "torch_sub (Tensor2 (A, bk)) y =
     (if ncols A = length y
        then Inr (Tensor2 (\<lparr>ncols = ncols A, rows = map (\<lambda>r. map2 fsub r y) (rows A)\<rparr>, bk))
      else if length y = 1
        then Inr (Tensor2 (\<lparr>ncols = ncols A,
                            rows = map (map (\<lambda>x. fsub x (y ! 0))) (rows A)\<rparr>, bk))
      else if ncols A = 1
        then Inr (Tensor2 (\<lparr>ncols = length y,
                            rows = map (\<lambda>r. map (\<lambda>b. fsub (r ! 0) b) y) (rows A)\<rparr>,
                           \<lambda>G. bk \<lparr>ncols = 1, rows = map (\<lambda>r. [fsum r]) (rows G)\<rparr>))
      else Inl RuntimeError)"

text \<open>\<^verbatim>\<open>torch.pow(a, n)\<close>; its gradient is \<open>n * a ** (n - 1)\<close> times the incoming one.\<close>

definition pow_backward :: "nat \<Rightarrow> npfloat \<Rightarrow> npfloat \<Rightarrow> npfloat" where
  "pow_backward n x g = fmul g (fmul (Num (real n)) (fpow x (n - 1)))"

fun torch_pow :: "'g tensor \<Rightarrow> nat \<Rightarrow> 'g tensor" where
  "torch_pow (Tensor1 (a, bk)) n =
     Tensor1 (map (\<lambda>x. fpow x n) a, \<lambda>g. bk (map2 (pow_backward n) a g))"
| "torch_pow (Tensor2 (A, bk)) n =
     Tensor2 (\<lparr>ncols = ncols A, rows = map (map (\<lambda>x. fpow x n)) (rows A)\<rparr>,
              \<lambda>G. bk \<lparr>ncols = ncols A,
                      rows = map2 (map2 (pow_backward n)) (rows A) (rows G)\<rparr>)"

text \<open>\<^verbatim>\<open>torch.mean(a)\<close>, over all elements; each element receives an equal share of the gradient.\<close>

fun torch_mean :: "'g tensor \<Rightarrow> 'g tensor0" where
  "torch_mean (Tensor1 (a, bk)) =
     (let n = Num (real (length a))
      in (fdiv (fsum a) n, \<lambda>g. bk (replicate (length a) (fdiv g n))))"
| "torch_mean (Tensor2 (A, bk)) =
     (let n = Num (real (nrows A * ncols A))
      in (fdiv (fsum (concat (rows A))) n,
          \<lambda>g. bk \<lparr>ncols = ncols A,
                  rows = replicate (nrows A) (replicate (ncols A) (fdiv g n))\<rparr>))"

text \<open>Elementwise operations on two-dimensional arrays of one shape.\<close>

definition add2 :: "ndarray2 \<Rightarrow> ndarray2 \<Rightarrow> ndarray2" where
  "add2 A B = \<lparr>ncols = ncols A, rows = map2 (map2 fadd) (rows A) (rows B)\<rparr>"

definition sub2 :: "ndarray2 \<Rightarrow> ndarray2 \<Rightarrow> ndarray2" where
  "sub2 A B = \<lparr>ncols = ncols A, rows = map2 (map2 fsub) (rows A) (rows B)\<rparr>"

definition scalar_mul2 :: "npfloat \<Rightarrow> ndarray2 \<Rightarrow> ndarray2" where
  "scalar_mul2 c A = \<lparr>ncols = ncols A, rows = map (map (fmul c)) (rows A)\<rparr>"

subsection \<open>The class\<close>

text \<open>
  \<^verbatim>\<open>
  class MixedLinearRegression(object):
      def __init__(self, n_features, n_targets=1, lr=0.01):
          self.W = torch.zeros(n_targets, n_features, requires_grad=True)
          self.lr = lr
  \<close>
  \<open>W_data\<close> is \<^verbatim>\<open>self.W.data\<close> and \<open>W_grad\<close> is \<^verbatim>\<open>self.W.grad\<close>, which is \<^verbatim>\<open>None\<close>
  until the first \<^verbatim>\<open>backward()\<close>.
\<close>

record MixedLinearRegression =
  W_data :: ndarray2
  W_grad :: "ndarray2 option"
  mixed_lr :: real

definition MixedLinearRegression_init :: "nat \<Rightarrow> nat \<Rightarrow> real \<Rightarrow> MixedLinearRegression" where
  "MixedLinearRegression_init n_features n_targets lr0 =
     \<lparr>W_data = zeros2 n_targets n_features, W_grad = None, mixed_lr = lr0\<rparr>"

text \<open>\<^verbatim>\<open>self.W\<close> as a tensor: the gradient with respect to it is the incoming one.\<close>

definition parameter :: "MixedLinearRegression \<Rightarrow> ndarray2 tensor2" where
  "parameter self = (W_data self, \<lambda>G. G)"

text \<open>
  \<^verbatim>\<open>
      def predict(self, X):
          y_hat = torch.matmul(X, self.W.t())
          return y_hat.squeeze(-1)
  \<close>
\<close>

definition MixedLinearRegression_predict ::
  "MixedLinearRegression \<Rightarrow> ndarray2 \<Rightarrow> error + (ndarray2 tensor \<times> MixedLinearRegression)" where
  "MixedLinearRegression_predict self X =
     ebind (torch_matmul X (torch_t (parameter self))) (\<lambda>y_hat.
     Inr (torch_squeeze y_hat, self))"

text \<open>
  \<^verbatim>\<open>
      def loss(self, y_hat, y):
          return torch.mean(torch.pow(y_hat - y, 2))
  \<close>
\<close>

definition MixedLinearRegression_loss ::
  "MixedLinearRegression \<Rightarrow> ndarray2 tensor \<Rightarrow> ndarray1
     \<Rightarrow> error + (ndarray2 tensor0 \<times> MixedLinearRegression)" where
  "MixedLinearRegression_loss self y_hat y =
     ebind (torch_sub y_hat y) (\<lambda>d. Inr (torch_mean (torch_pow d 2), self))"

text \<open>\<^verbatim>\<open>loss.backward()\<close> adds the gradient of the loss to \<^verbatim>\<open>self.W.grad\<close>.\<close>

definition backward :: "MixedLinearRegression \<Rightarrow> ndarray2 tensor0 \<Rightarrow> MixedLinearRegression" where
  "backward self loss =
     (let G = snd loss (Num 1)
      in self\<lparr>W_grad := Some (case W_grad self of None \<Rightarrow> G | Some G0 \<Rightarrow> add2 G0 G)\<rparr>)"

text \<open>
  \<^verbatim>\<open>
      def update_weight(self):
          # Gradients are given to us by autograd!
          self.W.data = self.W.data - self.lr * self.W.grad.data
  \<close>
\<close>

definition MixedLinearRegression_update_weight ::
  "MixedLinearRegression \<Rightarrow> error + MixedLinearRegression" where
  "MixedLinearRegression_update_weight self =
     (case W_grad self of
        None \<Rightarrow> Inl AttributeError
      | Some G \<Rightarrow> Inr (self\<lparr>W_data := sub2 (W_data self) (scalar_mul2 (Num (mixed_lr self)) G)\<rparr>))"

text \<open>\<^verbatim>\<open>self.W.grad.data.zero_()\<close>\<close>

definition zero_grad :: "MixedLinearRegression \<Rightarrow> error + MixedLinearRegression" where
  "zero_grad self =
     (case W_grad self of
        None \<Rightarrow> Inl AttributeError
      | Some G \<Rightarrow> Inr (self\<lparr>W_grad := Some (zeros2 (nrows G) (ncols G))\<rparr>))"

text \<open>
  \<^verbatim>\<open>
      def train(self, X, y, epochs=50):
          """
          X (n_examples x n_features):
          y (n_examples): gold labels
          """
          loss_history = []
          for _ in range(epochs):
              y_hat = self.predict(X)
              loss = self.loss(y_hat, y)
              loss.backward()
              loss_history.append(loss.item())
              self.update_weight()
              self.W.grad.data.zero_()
          return loss_history
  \<close>
  \<^verbatim>\<open>loss.item()\<close> is the value of the loss tensor.
\<close>

fun MixedLinearRegression_train_loop ::
  "nat \<Rightarrow> MixedLinearRegression \<Rightarrow> ndarray2 \<Rightarrow> ndarray1 \<Rightarrow> npfloat list
     \<Rightarrow> error + (npfloat list \<times> MixedLinearRegression)" where
  "MixedLinearRegression_train_loop 0 self X y loss_history = Inr (loss_history, self)"
| "MixedLinearRegression_train_loop (Suc k) self X y loss_history =
     ebind (MixedLinearRegression_predict self X) (\<lambda>(y_hat, self).
     ebind (MixedLinearRegression_loss self y_hat y) (\<lambda>(loss, self).
     ebind (MixedLinearRegression_update_weight (backward self loss)) (\<lambda>self.
     ebind (zero_grad self) (\<lambda>self.
     MixedLinearRegression_train_loop k self X y (loss_history @ [fst loss])))))"

definition MixedLinearRegression_train ::
  "MixedLinearRegression \<Rightarrow> ndarray2 \<Rightarrow> ndarray1 \<Rightarrow> int
     \<Rightarrow> error + (npfloat list \<times> MixedLinearRegression)" where
  "MixedLinearRegression_train self X y epochs =
     MixedLinearRegression_train_loop (nat epochs) self X y []"

section \<open>The framework version: \<^verbatim>\<open>LinReg\<close> and \<^verbatim>\<open>train\<close>\<close>

text \<open>
  \<^verbatim>\<open>
  class LinReg(nn.Module):
      # using off-the-shelf linear layer w/ bias.
      def __init__(self, input_dim):
          super().__init__()
          self.beta = nn.Linear(input_dim, 1)
      def forward(self, X):
          return self.beta(X)
  \<close>
  The layer holds a weight of shape \<open>(1, input_dim)\<close> and a bias of shape \<open>(1)\<close>, each with
  its gradient. The library draws their initial values at random; here the draws are
  arguments of the constructor.
\<close>

record LinReg =
  beta_weight :: ndarray2
  beta_bias :: ndarray1
  beta_weight_grad :: "ndarray2 option"
  beta_bias_grad :: "ndarray1 option"

definition LinReg_init :: "nat \<Rightarrow> (nat \<Rightarrow> real) \<Rightarrow> real \<Rightarrow> LinReg" where
  "LinReg_init input_dim weight0 bias0 =
     \<lparr>beta_weight = \<lparr>ncols = input_dim, rows = [map (\<lambda>j. Num (weight0 j)) [0..<input_dim]]\<rparr>,
      beta_bias = [Num bias0], beta_weight_grad = None, beta_bias_grad = None\<rparr>"

text \<open>
  The layer computes \<open>X A\<^sup>T + b\<close>. Its backward function returns the gradients with respect
  to the weight, \<open>G\<^sup>T X\<close>, and to the bias, the column sums of \<open>G\<close>. (The notebook's \<open>X\<close>
  requires a gradient as well, which nothing reads.)
\<close>

type_synonym param_grads = "ndarray2 \<times> ndarray1"

definition F_linear :: "ndarray2 \<Rightarrow> ndarray2 \<Rightarrow> ndarray1 \<Rightarrow> error + param_grads tensor2" where
  "F_linear X A b =
     (if ncols X \<noteq> ncols A then Inl RuntimeError
      else Inr (\<lparr>ncols = nrows A,
                 rows = map (\<lambda>x. map2 (\<lambda>a bk. fadd (dot1 x a) bk) (rows A) b) (rows X)\<rparr>,
                \<lambda>G. (mm (transpose2 G) X, map fsum (rows (transpose2 G)))))"

definition LinReg_forward :: "LinReg \<Rightarrow> ndarray2 \<Rightarrow> error + (param_grads tensor2 \<times> LinReg)" where
  "LinReg_forward self X =
     ebind (F_linear X (beta_weight self) (beta_bias self)) (\<lambda>y. Inr (y, self))"

text \<open>
  \<^verbatim>\<open>loss_fn = nn.MSELoss()\<close>: the mean over all elements of the squared difference of
  prediction and target, both two-dimensional, after broadcasting them to a common shape
  (an axis of length one is stretched). The gradient of a stretched axis is the sum over
  its copies.
\<close>

definition broadcast_shape :: "nat \<times> nat \<Rightarrow> nat \<times> nat \<Rightarrow> (nat \<times> nat) option" where
  "broadcast_shape s t =
     (let dim = (\<lambda>a b. if a = b then Some a else if a = 1 then Some b
                        else if b = 1 then Some a else None)
      in case (dim (fst s) (fst t), dim (snd s) (snd t)) of
           (Some r, Some c) \<Rightarrow> Some (r, c)
         | _ \<Rightarrow> None)"

definition expand2 :: "nat \<times> nat \<Rightarrow> ndarray2 \<Rightarrow> ndarray2" where
  "expand2 s A =
     \<lparr>ncols = snd s,
      rows = map (\<lambda>r. if ncols A = snd s then r else replicate (snd s) (r ! 0))
               (if nrows A = fst s then rows A else replicate (fst s) (rows A ! 0))\<rparr>"

definition sum_to_shape :: "nat \<times> nat \<Rightarrow> ndarray2 \<Rightarrow> ndarray2" where
  "sum_to_shape s G =
     (let G1 = (if fst s = nrows G then G
                else \<lparr>ncols = ncols G, rows = [map fsum (rows (transpose2 G))]\<rparr>)
      in if snd s = ncols G1 then G1
         else \<lparr>ncols = 1, rows = map (\<lambda>r. [fsum r]) (rows G1)\<rparr>)"

definition mse_loss :: "'g tensor2 \<Rightarrow> ndarray2 \<Rightarrow> error + 'g tensor0" where
  "mse_loss input target =
     (let A = fst input in
      case broadcast_shape (nrows A, ncols A) (nrows target, ncols target) of
        None \<Rightarrow> Inl RuntimeError
      | Some s \<Rightarrow>
          let d = sub2 (expand2 s A) (expand2 s target);
              n = Num (real (fst s * snd s))
          in Inr (fdiv (fsum (concat (map (map (\<lambda>x. fpow x 2)) (rows d)))) n,
                  \<lambda>g. snd input (sum_to_shape (nrows A, ncols A)
                         \<lparr>ncols = snd s,
                          rows = map (map (\<lambda>x. pow_backward 2 x (fdiv g n))) (rows d)\<rparr>)))"

text \<open>
  \<^verbatim>\<open>optimizer = optim.SGD(model.parameters(), lr=0.01)\<close>: \<^verbatim>\<open>zero_grad()\<close> resets the
  gradients to \<^verbatim>\<open>None\<close> (\<^verbatim>\<open>set_to_none=True\<close>, the default since PyTorch 2.0; before, it
  filled the gradients that existed with zeros), \<^verbatim>\<open>step()\<close> subtracts \<open>lr\<close> times its
  gradient from each parameter that has one. \<^verbatim>\<open>loss.backward()\<close> adds the gradients of
  the loss to those of the parameters, and stores them where there are none.
\<close>

definition optimizer_lr :: real where
  "optimizer_lr = 1 / 100"

definition optimizer_zero_grad :: "LinReg \<Rightarrow> LinReg" where
  "optimizer_zero_grad model = model\<lparr>beta_weight_grad := None, beta_bias_grad := None\<rparr>"

definition loss_backward :: "LinReg \<Rightarrow> param_grads tensor0 \<Rightarrow> LinReg" where
  "loss_backward model loss =
     (let G = snd loss (Num 1)
      in model\<lparr>beta_weight_grad :=
                 Some (case beta_weight_grad model of None \<Rightarrow> fst G | Some G0 \<Rightarrow> add2 G0 (fst G)),
               beta_bias_grad :=
                 Some (case beta_bias_grad model of None \<Rightarrow> snd G | Some g0 \<Rightarrow> map2 fadd g0 (snd G))\<rparr>)"

definition optimizer_step :: "LinReg \<Rightarrow> LinReg" where
  "optimizer_step model =
     model\<lparr>beta_weight :=
             (case beta_weight_grad model of
                None \<Rightarrow> beta_weight model
              | Some G \<Rightarrow> sub2 (beta_weight model) (scalar_mul2 (Num optimizer_lr) G)),
           beta_bias :=
             (case beta_bias_grad model of
                None \<Rightarrow> beta_bias model
              | Some g \<Rightarrow> map2 fsub (beta_bias model) (scalar_mul (Num optimizer_lr) g))\<rparr>"

text \<open>
  \<^verbatim>\<open>
  def train(model, X, y, epochs=50):
      model.train()
      loss_history = []
      for _ in range(epochs):
          optimizer.zero_grad()
          y_ = model(X)
          loss = loss_fn(y_, y)
          loss_history.append(loss.item())
          loss.backward()
          optimizer.step()
      return loss_history
  \<close>
  \<^verbatim>\<open>model.train()\<close> switches the module to training mode, which a linear layer ignores.
  Here \<open>y\<close> has shape \<open>(n_samples, 1)\<close>. (The notebook repeats this definition, with the
  same body, for its multi-layer perceptron.)
\<close>

fun train_loop :: "nat \<Rightarrow> LinReg \<Rightarrow> ndarray2 \<Rightarrow> ndarray2 \<Rightarrow> npfloat list
     \<Rightarrow> error + (npfloat list \<times> LinReg)" where
  "train_loop 0 model X y loss_history = Inr (loss_history, model)"
| "train_loop (Suc k) model X y loss_history =
     ebind (LinReg_forward (optimizer_zero_grad model) X) (\<lambda>(y_hat, model).
     ebind (mse_loss y_hat y) (\<lambda>loss.
     train_loop k (optimizer_step (loss_backward model loss)) X y (loss_history @ [fst loss])))"

definition train :: "LinReg \<Rightarrow> ndarray2 \<Rightarrow> ndarray2 \<Rightarrow> int \<Rightarrow> error + (npfloat list \<times> LinReg)" where
  "train model X y epochs = train_loop (nat epochs) model X y []"

section \<open>Closed forms and the mathematics they are compared with\<close>

subsection \<open>One epoch as a function of the weight row\<close>

text \<open>
  With \<^verbatim>\<open>n_targets = 1\<close> the weight matrix has a single row \<open>w\<close>. The definitions below
  give, on arrays, what one epoch of each class does to that row once all shape checks
  have passed; the lemmas of the next section prove that the classes compute exactly this.
\<close>

definition row2 :: "npfloat list \<Rightarrow> ndarray2" where
  "row2 w = \<lparr>ncols = length w, rows = [w]\<rparr>"

definition mse1 :: "ndarray1 \<Rightarrow> ndarray1 \<Rightarrow> npfloat" where
  "mse1 a y = np_mean (np_power (map2 fsub a y) 2)"

definition numpy_grad :: "ndarray2 \<Rightarrow> ndarray1 \<Rightarrow> ndarray1 \<Rightarrow> ndarray1" where
  "numpy_grad X y w =
     scalar_div (scalar_mul (Num 2) (mv (transpose2 X) (map2 fsub (mv X w) y))) (Num (real (nrows X)))"

definition numpy_step :: "real \<Rightarrow> ndarray2 \<Rightarrow> ndarray1 \<Rightarrow> ndarray1 \<Rightarrow> ndarray1" where
  "numpy_step \<eta> X y w = map2 fsub w (scalar_mul (Num \<eta>) (numpy_grad X y w))"

definition autograd_grad :: "ndarray2 \<Rightarrow> ndarray1 \<Rightarrow> ndarray1 \<Rightarrow> ndarray1" where
  "autograd_grad X y w =
     mv (transpose2 X)
        (map2 (pow_backward 2) (map2 fsub (mv X w) y)
           (replicate (nrows X) (fdiv (Num 1) (Num (real (nrows X))))))"

definition torch_step :: "real \<Rightarrow> ndarray2 \<Rightarrow> ndarray1 \<Rightarrow> ndarray1 \<Rightarrow> ndarray1" where
  "torch_step \<eta> X y w = map2 fsub w (scalar_mul (Num \<eta>) (autograd_grad X y w))"

text \<open>
  For the framework version: the output of the linear layer with weight row \<open>a\<close> and bias
  \<open>b\<close>, the gradient of the mean squared error with respect to that output, and the
  gradient with respect to the weight row that the layer derives from it.
\<close>

definition linear_out :: "ndarray2 \<Rightarrow> ndarray1 \<Rightarrow> npfloat \<Rightarrow> ndarray1" where
  "linear_out X a b = map (\<lambda>x. fadd (dot1 x a) b) (rows X)"

definition mse_grad :: "ndarray1 \<Rightarrow> ndarray1 \<Rightarrow> ndarray1" where
  "mse_grad p t =
     map (\<lambda>x. pow_backward 2 x (fdiv (Num 1) (Num (real (length p))))) (map2 fsub p t)"

definition weight_grad :: "ndarray2 \<Rightarrow> ndarray1 \<Rightarrow> ndarray1" where
  "weight_grad X gv = map (\<lambda>j. dot1 gv (col X j)) [0..<ncols X]"

text \<open>\<open>k\<close> calls of \<^verbatim>\<open>update_weight(X, y)\<close> in a row, each on the whole of \<open>X\<close> and \<open>y\<close>.\<close>

fun repeat_update_weight ::
  "nat \<Rightarrow> LinearRegression \<Rightarrow> ndarray2 \<Rightarrow> ndarray1 \<Rightarrow> error + LinearRegression" where
  "repeat_update_weight 0 self X y = Inr self"
| "repeat_update_weight (Suc k) self X y =
     ebind (LinearRegression_update_weight self X y) (\<lambda>self. repeat_update_weight k self X y)"

subsection \<open>Linear regression over the reals\<close>

text \<open>
  The textbook definitions, on lists of reals: a dataset is the list \<open>X\<close> of its examples
  (each a list of \<open>n\<close> features) with the list \<open>y\<close> of labels; \<open>w\<close> is the weight vector.
  \<open>predict_spec\<close> is \<open>X W\<^sup>T\<close>, \<open>mse_spec\<close> the mean squared error,
  \<open>gradient_spec\<close> is \<open>(2 / m) X\<^sup>T (X W\<^sup>T - y)\<close> and \<open>gd_step\<close> one step of gradient
  descent with step size \<open>\<eta>\<close>.
\<close>

definition of_vec :: "real list \<Rightarrow> ndarray1" where
  "of_vec v = map Num v"

definition of_mat :: "nat \<Rightarrow> real list list \<Rightarrow> ndarray2" where
  "of_mat n X = \<lparr>ncols = n, rows = map of_vec X\<rparr>"

definition dot_spec :: "real list \<Rightarrow> real list \<Rightarrow> real" where
  "dot_spec a b = sum_list (map2 (*) a b)"

definition predict_spec :: "real list \<Rightarrow> real list list \<Rightarrow> real list" where
  "predict_spec w X = map (\<lambda>x. dot_spec x w) X"

definition mse_spec :: "real list \<Rightarrow> real list \<Rightarrow> real" where
  "mse_spec y_hat y = sum_list (map2 (\<lambda>a b. (a - b)\<^sup>2) y_hat y) / real (length y_hat)"

definition column :: "real list list \<Rightarrow> nat \<Rightarrow> real list" where
  "column X j = map (\<lambda>x. x ! j) X"

definition gradient_spec :: "real list \<Rightarrow> real list list \<Rightarrow> real list \<Rightarrow> real list" where
  "gradient_spec w X y =
     map (\<lambda>j. 2 / real (length X) * dot_spec (column X j) (map2 (-) (predict_spec w X) y))
       [0..<length w]"

definition gd_step :: "real \<Rightarrow> real list list \<Rightarrow> real list \<Rightarrow> real list \<Rightarrow> real list" where
  "gd_step \<eta> X y w = map2 (\<lambda>wj gj. wj - \<eta> * gj) w (gradient_spec w X y)"

text \<open>
  A dataset with a constant feature \<open>1\<close> in front of every example: a weight on that
  feature is a bias. (The notebook builds this array under \<^verbatim>\<open>use_bias\<close>, which it sets
  to \<^verbatim>\<open>False\<close>.)
\<close>

definition augment :: "real list list \<Rightarrow> real list list" where
  "augment X = map ((#) 1) X"

section \<open>The largest number of a float format\<close>





section \<open>Supporting lemmas\<close>

subsection \<open>\<^verbatim>\<open>LinearRegression\<close> on shapes that fit\<close>

lemma ebind_simps [simp]: "ebind (Inl e) f = Inl e" "ebind (Inr x) f = f x"
  by (simp_all add: ebind_def)

lemma col_transpose_row2: "col (transpose2 (row2 w)) 0 = w"
  by (simp add: col_def transpose2_def row2_def map_nth comp_def)

lemma predict_row:
  assumes "ncols X = length w"
  shows "LinearRegression_predict \<lparr>W = row2 w, lr = \<eta>\<rparr> X = Inr (mv X w, \<lparr>W = row2 w, lr = \<eta>\<rparr>)"
proof -
  have "np_dot X (transpose2 (row2 w)) = Inr (mm X (transpose2 (row2 w)))"
    using assms by (simp add: np_dot_def transpose2_def nrows_def row2_def)
  moreover have "np_squeeze (mm X (transpose2 (row2 w))) = Inr (mv X w)"
    using col_transpose_row2[of w]
    by (simp add: np_squeeze_def mm_def mv_def col_def comp_def transpose2_def nrows_def row2_def)
  ultimately show ?thesis
    by (simp add: LinearRegression_predict_def)
qed

lemma length_numpy_grad: "length (numpy_grad X y w) = ncols X"
  by (simp add: numpy_grad_def scalar_mul_def scalar_div_def mv_def transpose2_def)

lemma length_numpy_step: "ncols X = length w \<Longrightarrow> length (numpy_step \<eta> X y w) = length w"
  by (simp add: numpy_step_def scalar_mul_def length_numpy_grad)

lemma W_grad_row:
  assumes "length y = nrows X"
  shows "LinearRegression_W_grad X (mv X w) y = Inr (numpy_grad X y w)"
proof -
  have "np_sub (mv X w) y = Inr (map2 fsub (mv X w) y)"
    using assms by (simp add: np_sub_def mv_def nrows_def)
  moreover have "np_dot_vec (transpose2 X) (map2 fsub (mv X w) y)
      = Inr (mv (transpose2 X) (map2 fsub (mv X w) y))"
    using assms by (simp add: np_dot_vec_def transpose2_def mv_def nrows_def)
  ultimately show ?thesis
    by (simp add: LinearRegression_W_grad_def Let_def numpy_grad_def)
qed

lemma update_row:
  assumes "ncols X = length w" "length y = nrows X"
  shows "LinearRegression_update_weight \<lparr>W = row2 w, lr = \<eta>\<rparr> X y
         = Inr \<lparr>W = row2 (numpy_step \<eta> X y w), lr = \<eta>\<rparr>"
proof -
  have "np_sub_rows (row2 w) (scalar_mul (Num \<eta>) (numpy_grad X y w))
      = Inr (row2 (map2 fsub w (scalar_mul (Num \<eta>) (numpy_grad X y w))))"
    using assms(1) by (simp add: np_sub_rows_def row2_def scalar_mul_def length_numpy_grad)
  then show ?thesis
    by (simp add: LinearRegression_update_weight_def predict_row[OF assms(1)]
        W_grad_row[OF assms(2)] numpy_step_def)
qed

lemma loss_eq_len:
  "length a = length y \<Longrightarrow> LinearRegression_loss self a y = Inr (mse1 a y, self)"
  by (simp add: LinearRegression_loss_def np_sub_def mse1_def)

lemma length_mv [simp]: "length (mv X w) = nrows X"
  by (simp add: mv_def nrows_def)

lemma train_loop_row:
  assumes "ncols X = length w" "length y = nrows X"
  shows "LinearRegression_train_loop k \<lparr>W = row2 w, lr = \<eta>\<rparr> X y h
         = Inr (h @ map (\<lambda>i. mse1 (mv X ((numpy_step \<eta> X y ^^ Suc i) w)) y) [0..<k],
                \<lparr>W = row2 ((numpy_step \<eta> X y ^^ k) w), lr = \<eta>\<rparr>)"
  using assms
proof (induction k arbitrary: w h)
  case 0
  then show ?case by simp
next
  case (Suc k)
  let ?w1 = "numpy_step \<eta> X y w"
  have len1: "ncols X = length ?w1"
    using Suc.prems by (simp add: length_numpy_step)
  have ih: "LinearRegression_train_loop k \<lparr>W = row2 ?w1, lr = \<eta>\<rparr> X y (h @ [mse1 (mv X ?w1) y])
      = Inr ((h @ [mse1 (mv X ?w1) y]) @ map (\<lambda>i. mse1 (mv X ((numpy_step \<eta> X y ^^ Suc i) ?w1)) y) [0..<k],
                \<lparr>W = row2 ((numpy_step \<eta> X y ^^ k) ?w1), lr = \<eta>\<rparr>)"
    by (rule Suc.IH[OF len1 Suc.prems(2)])
  have shift: "map (\<lambda>i. mse1 (mv X ((numpy_step \<eta> X y ^^ Suc i) w)) y) [0..<Suc k]
      = mse1 (mv X ?w1) y # map (\<lambda>i. mse1 (mv X ((numpy_step \<eta> X y ^^ Suc i) ?w1)) y) [0..<k]"
    by (simp only: map_upt_Suc) (simp add: funpow_swap1)
  have "LinearRegression_train_loop (Suc k) \<lparr>W = row2 w, lr = \<eta>\<rparr> X y h
      = LinearRegression_train_loop k \<lparr>W = row2 ?w1, lr = \<eta>\<rparr> X y (h @ [mse1 (mv X ?w1) y])"
    using Suc.prems len1
    by (simp add: update_row predict_row loss_eq_len)
  then show ?case
    unfolding ih shift by (simp add: funpow_swap1)
qed

subsection \<open>\<^verbatim>\<open>MixedLinearRegression\<close> on shapes that fit\<close>

lemma nrows_transpose2 [simp]: "nrows (transpose2 A) = ncols A"
  by (simp add: transpose2_def nrows_def)

lemma ncols_transpose2 [simp]: "ncols (transpose2 A) = nrows A"
  by (simp add: transpose2_def)

lemma length_autograd_grad [simp]: "length (autograd_grad X y w) = ncols X"
  by (simp add: autograd_grad_def)

lemma length_torch_step: "ncols X = length w \<Longrightarrow> length (torch_step \<eta> X y w) = length w"
  by (simp add: torch_step_def scalar_mul_def)

lemma col_unsqueeze: "col (unsqueeze g) 0 = g"
  by (simp add: col_def unsqueeze_def comp_def)

lemma transpose_mm_unsqueeze:
  "transpose2 (mm A (unsqueeze g)) = row2 (mv A g)"
  using col_unsqueeze[of g]
  by (simp add: transpose2_def mm_def row2_def mv_def nrows_def col_def comp_def unsqueeze_def)

lemma mixed_predict_row:
  assumes "ncols X = length w"
  shows "MixedLinearRegression_predict \<lparr>W_data = row2 w, W_grad = g0, mixed_lr = \<eta>\<rparr> X
       = Inr (Tensor1 (mv X w, \<lambda>g. row2 (mv (transpose2 X) g)),
              \<lparr>W_data = row2 w, W_grad = g0, mixed_lr = \<eta>\<rparr>)"
proof -
  have sq: "col (mm X (transpose2 (row2 w))) 0 = mv X w"
    using col_transpose_row2[of w]
    by (simp add: mm_def mv_def col_def comp_def transpose2_def nrows_def row2_def)
  show ?thesis
    using assms sq
    by (simp add: MixedLinearRegression_predict_def torch_matmul_def torch_t_def parameter_def
        torch_squeeze_def transpose_mm_unsqueeze)
       (simp add: transpose2_def nrows_def row2_def mm_def)
qed

lemma mixed_loss_row:
  assumes "length a = length y"
  shows "MixedLinearRegression_loss self (Tensor1 (a, bk)) y
       = Inr ((mse1 a y,
               \<lambda>g. bk (map2 (pow_backward 2) (map2 fsub a y)
                         (replicate (length a) (fdiv g (Num (real (length a))))))), self)"
  using assms
  by (simp add: MixedLinearRegression_loss_def mse1_def np_mean_def np_power_def Let_def)

lemma fadd_zero_left [simp]: "fadd (Num 0) x = x"
  by (cases x) simp_all

lemma map2_fadd_zeros: "length g = n \<Longrightarrow> map2 fadd (replicate n (Num 0)) g = g"
  by (induction g arbitrary: n) auto

lemma add2_zeros_row2: "add2 (zeros2 1 (length g)) (row2 g) = row2 g"
  by (simp add: add2_def zeros2_def row2_def map2_fadd_zeros)

lemma sub2_scalar_mul2_row2:
  "length g = length w \<Longrightarrow> sub2 (row2 w) (scalar_mul2 c (row2 g)) = row2 (map2 fsub w (scalar_mul c g))"
  by (simp add: sub2_def scalar_mul2_def row2_def scalar_mul_def)

lemma mixed_backward_row:
  assumes "ncols X = length w" "length y = nrows X"
    and "g0 = None \<or> g0 = Some (zeros2 1 (length w))"
  shows "backward \<lparr>W_data = row2 w, W_grad = g0, mixed_lr = \<eta>\<rparr>
           (mse1 (mv X w) y,
            \<lambda>g. row2 (mv (transpose2 X) (map2 (pow_backward 2) (map2 fsub (mv X w) y)
                         (replicate (nrows X) (fdiv g (Num (real (nrows X))))))))
       = \<lparr>W_data = row2 w, W_grad = Some (row2 (autograd_grad X y w)), mixed_lr = \<eta>\<rparr>"
proof -
  have "add2 (zeros2 1 (length w)) (row2 (autograd_grad X y w)) = row2 (autograd_grad X y w)"
    using add2_zeros_row2[of "autograd_grad X y w"] assms(1) by simp
  then show ?thesis
    using assms(3) by (auto simp: backward_def Let_def autograd_grad_def)
qed

lemma mixed_update_row:
  assumes "ncols X = length w"
  shows "MixedLinearRegression_update_weight
           \<lparr>W_data = row2 w, W_grad = Some (row2 (autograd_grad X y w)), mixed_lr = \<eta>\<rparr>
       = Inr \<lparr>W_data = row2 (torch_step \<eta> X y w), W_grad = Some (row2 (autograd_grad X y w)),
              mixed_lr = \<eta>\<rparr>"
  using assms
  by (simp add: MixedLinearRegression_update_weight_def sub2_scalar_mul2_row2 torch_step_def)

lemma mixed_zero_grad_row:
  "zero_grad \<lparr>W_data = A, W_grad = Some (row2 g), mixed_lr = \<eta>\<rparr>
     = Inr \<lparr>W_data = A, W_grad = Some (zeros2 1 (length g)), mixed_lr = \<eta>\<rparr>"
  by (simp add: zero_grad_def row2_def nrows_def)

lemma mixed_epoch_row:
  assumes "ncols X = length w" "length y = nrows X"
    and "g0 = None \<or> g0 = Some (zeros2 1 (length w))"
  shows "MixedLinearRegression_train_loop (Suc k)
           \<lparr>W_data = row2 w, W_grad = g0, mixed_lr = \<eta>\<rparr> X y h
       = MixedLinearRegression_train_loop k
           \<lparr>W_data = row2 (torch_step \<eta> X y w), W_grad = Some (zeros2 1 (length w)),
            mixed_lr = \<eta>\<rparr> X y (h @ [mse1 (mv X w) y])"
proof -
  have len: "length (mv X w) = length y"
    using assms(2) by simp
  show ?thesis
    using assms(1)
    by (simp add: mixed_predict_row[OF assms(1)] mixed_loss_row[OF len]
        mixed_backward_row[OF assms] mixed_update_row[OF assms(1)] mixed_zero_grad_row)
qed

lemma mixed_train_loop_row:
  assumes "ncols X = length w" "length y = nrows X"
    and "g0 = None \<or> g0 = Some (zeros2 1 (length w))"
  shows "MixedLinearRegression_train_loop k \<lparr>W_data = row2 w, W_grad = g0, mixed_lr = \<eta>\<rparr> X y h
         = Inr (h @ map (\<lambda>i. mse1 (mv X ((torch_step \<eta> X y ^^ i) w)) y) [0..<k],
                \<lparr>W_data = row2 ((torch_step \<eta> X y ^^ k) w),
                 W_grad = (if k = 0 then g0 else Some (zeros2 1 (length w))), mixed_lr = \<eta>\<rparr>)"
  using assms
proof (induction k arbitrary: w h g0)
  case 0
  then show ?case by simp
next
  case (Suc k)
  let ?w1 = "torch_step \<eta> X y w"
  have len1: "ncols X = length ?w1" and len2: "length ?w1 = length w"
    using Suc.prems by (simp_all add: length_torch_step)
  have ih: "MixedLinearRegression_train_loop k
       \<lparr>W_data = row2 ?w1, W_grad = Some (zeros2 1 (length w)), mixed_lr = \<eta>\<rparr> X y
       (h @ [mse1 (mv X w) y])
      = Inr ((h @ [mse1 (mv X w) y]) @ map (\<lambda>i. mse1 (mv X ((torch_step \<eta> X y ^^ i) ?w1)) y) [0..<k],
                \<lparr>W_data = row2 ((torch_step \<eta> X y ^^ k) ?w1),
                 W_grad = (if k = 0 then Some (zeros2 1 (length w)) else Some (zeros2 1 (length ?w1))),
                 mixed_lr = \<eta>\<rparr>)"
    using Suc.IH[OF len1 Suc.prems(2), of "Some (zeros2 1 (length w))"] len2 by simp
  have shift: "map (\<lambda>i. mse1 (mv X ((torch_step \<eta> X y ^^ i) w)) y) [0..<Suc k]
      = mse1 (mv X w) y # map (\<lambda>i. mse1 (mv X ((torch_step \<eta> X y ^^ i) ?w1)) y) [0..<k]"
    by (simp only: map_upt_Suc) (simp add: funpow_swap1)
  show ?case
    unfolding mixed_epoch_row[OF Suc.prems] ih shift
    by (simp add: funpow_swap1 len2)
qed

subsection \<open>From arrays of reals to lists of reals\<close>

lemma wf2_of_mat: "wf2 (of_mat n X) \<longleftrightarrow> (\<forall>x\<in>set X. length x = n)"
  by (simp add: wf2_def of_mat_def of_vec_def list_all_iff)

lemma wf2_zeros2: "wf2 (zeros2 k n)"
  by (simp add: wf2_def zeros2_def list_all_iff)

lemma length_of_vec [simp]: "length (of_vec v) = length v"
  by (simp add: of_vec_def)

lemma ncols_of_mat [simp]: "ncols (of_mat n X) = n"
  by (simp add: of_mat_def)

lemma nrows_of_mat [simp]: "nrows (of_mat n X) = length X"
  by (simp add: of_mat_def nrows_def)

lemma of_vec_map: "of_vec (map f xs) = map (\<lambda>x. Num (f x)) xs"
  by (simp add: of_vec_def)

lemma fsum_of_vec: "fsum (of_vec v) = Num (sum_list v)"
  by (induction v) (simp_all add: of_vec_def)

lemma map2_of_vec:
  assumes "\<And>a b. f (Num a) (Num b) = Num (g a b)"
  shows "map2 f (of_vec u) (of_vec v) = of_vec (map2 g u v)"
  by (induction u v rule: list_induct2') (simp_all add: of_vec_def assms)

lemma dot1_of_vec: "dot1 (of_vec a) (of_vec b) = Num (dot_spec a b)"
  by (simp add: dot1_def dot_spec_def map2_of_vec[of fmul "(*)"] fsum_of_vec)

lemma mv_of_mat: "mv (of_mat n X) (of_vec w) = of_vec (predict_spec w X)"
  by (simp add: mv_def of_mat_def predict_spec_def dot1_of_vec of_vec_map)

lemma col_of_mat:
  assumes "\<forall>x\<in>set X. length x = n" "j < n"
  shows "col (of_mat n X) j = of_vec (column X j)"
  using assms by (simp add: col_def of_mat_def column_def of_vec_def)

lemma mv_transpose_of_mat:
  assumes "\<forall>x\<in>set X. length x = n"
  shows "mv (transpose2 (of_mat n X)) (of_vec d) = of_vec (map (\<lambda>j. dot_spec (column X j) d) [0..<n])"
proof -
  have "map (\<lambda>j. dot1 (col (of_mat n X) j) (of_vec d)) [0..<n]
      = map (\<lambda>j. Num (dot_spec (column X j) d)) [0..<n]"
    by (rule map_cong[OF refl]) (simp add: col_of_mat[OF assms] dot1_of_vec)
  then show ?thesis
    by (simp add: mv_def transpose2_def comp_def of_vec_def)
qed

lemma fsub_Num [simp]: "fsub (Num a) (Num b) = Num (a - b)"
  by (simp add: fsub_def)

lemma fpow_Num [simp]: "fpow (Num a) n = Num (a ^ n)"
  by (induction n) simp_all

lemma scalar_mul_of_vec: "scalar_mul (Num c) (of_vec v) = of_vec (map (\<lambda>x. c * x) v)"
  by (simp add: scalar_mul_def of_vec_def)

lemma scalar_div_of_vec: "c \<noteq> 0 \<Longrightarrow> scalar_div (of_vec v) (Num c) = of_vec (map (\<lambda>x. x / c) v)"
  by (simp add: scalar_div_def of_vec_def)

lemma dot_spec_scale: "dot_spec c (map (\<lambda>x. k * x) d) = k * dot_spec c d"
  unfolding dot_spec_def
  by (induction c d rule: list_induct2') (simp_all add: algebra_simps)

lemma numpy_step_of:
  assumes "\<forall>x\<in>set X. length x = n" "X \<noteq> []" "length w = n"
  shows "numpy_step \<eta> (of_mat n X) (of_vec y) (of_vec w) = of_vec (gd_step \<eta> X y w)"
proof -
  have m: "real (length X) \<noteq> 0" using assms(2) by simp
  show ?thesis
    unfolding numpy_step_def numpy_grad_def nrows_of_mat mv_of_mat
      map2_of_vec[of fsub "(-)", OF fsub_Num]
      mv_transpose_of_mat[OF assms(1)] scalar_mul_of_vec scalar_div_of_vec[OF m]
    by (simp add: gd_step_def gradient_spec_def assms(3) zip_map2 comp_def split_def)
qed

lemma replicate_of_vec: "replicate n (Num c) = of_vec (replicate n c)"
  by (simp add: of_vec_def)

lemma pow_backward_Num: "pow_backward n (Num d) (Num g) = Num (g * (real n * d ^ (n - 1)))"
  by (simp add: pow_backward_def)

lemma map2_replicate: "map2 f d (replicate (length d) c) = map (\<lambda>x. f x c) d"
  by (induction d) simp_all

lemma autograd_grad_of:
  assumes "\<forall>x\<in>set X. length x = n" "X \<noteq> []" "length w = n" "length y = length X"
  shows "autograd_grad (of_mat n X) (of_vec y) (of_vec w) = of_vec (gradient_spec w X y)"
proof -
  have m: "real (length X) \<noteq> 0" using assms(2) by simp
  let ?d = "map2 (-) (predict_spec w X) y"
  let ?k = "2 / real (length X)"
  have len: "length ?d = length X"
    using assms(4) by (simp add: predict_spec_def)
  have "map2 (\<lambda>d g. g * (real 2 * d ^ (2 - 1))) ?d (replicate (length ?d) (1 / real (length X)))
      = map (\<lambda>x. ?k * x) ?d"
    unfolding map2_replicate by simp
  then have "map2 (pow_backward 2) (of_vec ?d) (replicate (length X) (fdiv (Num 1) (Num (real (length X)))))
      = of_vec (map (\<lambda>x. ?k * x) ?d)"
    using m len
    by (simp add: replicate_of_vec map2_of_vec[of "pow_backward 2", OF pow_backward_Num])
  then have "autograd_grad (of_mat n X) (of_vec y) (of_vec w)
      = of_vec (map (\<lambda>j. dot_spec (column X j) (map (\<lambda>x. ?k * x) ?d)) [0..<n])"
    unfolding autograd_grad_def nrows_of_mat mv_of_mat map2_of_vec[of fsub "(-)", OF fsub_Num]
    by (simp only: mv_transpose_of_mat[OF assms(1)])
  then show ?thesis
    unfolding dot_spec_scale by (simp add: gradient_spec_def assms(3))
qed

lemma torch_step_of:
  assumes "\<forall>x\<in>set X. length x = n" "X \<noteq> []" "length w = n" "length y = length X"
  shows "torch_step \<eta> (of_mat n X) (of_vec y) (of_vec w) = of_vec (gd_step \<eta> X y w)"
  unfolding torch_step_def autograd_grad_of[OF assms] scalar_mul_of_vec map2_of_vec[of fsub "(-)", OF fsub_Num]
  by (simp add: gd_step_def zip_map2 comp_def split_def)

lemma length_gd_step [simp]: "length (gd_step \<eta> X y w) = length w"
  by (simp add: gd_step_def gradient_spec_def)

lemma length_funpow_gd_step [simp]: "length ((gd_step \<eta> X y ^^ k) w) = length w"
  by (induction k) simp_all

lemma funpow_numpy_step_of:
  assumes "\<forall>x\<in>set X. length x = n" "X \<noteq> []" "length w = n"
  shows "(numpy_step \<eta> (of_mat n X) (of_vec y) ^^ k) (of_vec w) = of_vec ((gd_step \<eta> X y ^^ k) w)"
  by (induction k) (simp_all add: numpy_step_of[OF assms(1,2)] assms(3))

lemma funpow_torch_step_of:
  assumes "\<forall>x\<in>set X. length x = n" "X \<noteq> []" "length w = n" "length y = length X"
  shows "(torch_step \<eta> (of_mat n X) (of_vec y) ^^ k) (of_vec w) = of_vec ((gd_step \<eta> X y ^^ k) w)"
  by (induction k) (simp_all add: torch_step_of[OF assms(1,2) _ assms(4)] assms(3))

lemma mse1_of:
  assumes "a \<noteq> []" "length a = length y"
  shows "mse1 (of_vec a) (of_vec y) = Num (mse_spec a y)"
proof -
  have "np_power (of_vec (map2 (-) a y)) 2 = of_vec (map2 (\<lambda>a b. (a - b)\<^sup>2) a y)"
    by (simp add: np_power_def of_vec_def comp_def split_def)
  moreover have "y \<noteq> []"
    using assms by auto
  ultimately show ?thesis
    using assms
    by (simp add: mse1_def map2_of_vec[of fsub "(-)", OF fsub_Num] np_mean_def fsum_of_vec mse_spec_def)
qed

subsection \<open>The gradient of the mean squared error\<close>

lemma dot_spec_simps [simp]:
  "dot_spec [] b = 0" "dot_spec a [] = 0" "dot_spec (u # a) (v # b) = u * v + dot_spec a b"
  by (simp_all add: dot_spec_def)

lemma dot_spec_update:
  "length x = length w \<Longrightarrow> j < length w \<Longrightarrow>
     dot_spec x (w[j := t]) = dot_spec x w + x ! j * (t - w ! j)"
proof (induction x w arbitrary: j rule: list_induct2)
  case Nil
  then show ?case by simp
next
  case (Cons a x b w)
  then show ?case
    by (cases j) (simp_all add: algebra_simps)
qed

lemma dot_spec_deriv:
  assumes "length x = length w" "j < length w"
  shows "((\<lambda>t. dot_spec x (w[j := t])) has_field_derivative x ! j) (at (w ! j))"
proof -
  have "((\<lambda>t. dot_spec x w + x ! j * (t - w ! j)) has_field_derivative x ! j) (at (w ! j))"
    by (auto intro!: derivative_eq_intros)
  then show ?thesis
    by (simp add: dot_spec_update[OF assms])
qed

lemma sq_err_deriv:
  assumes "length x = length w" "j < length w"
  shows "((\<lambda>t. (dot_spec x (w[j := t]) - b)\<^sup>2) has_field_derivative
            2 * (x ! j * (dot_spec x w - b))) (at (w ! j))"
  using dot_spec_deriv[OF assms]
  by (auto intro!: derivative_eq_intros)

lemma sum_sq_err_deriv:
  assumes "\<forall>x\<in>set X. length x = length w" "j < length w"
  shows "((\<lambda>t. sum_list (map2 (\<lambda>a b. (a - b)\<^sup>2) (predict_spec (w[j := t]) X) y))
            has_field_derivative
            2 * dot_spec (column X j) (map2 (-) (predict_spec w X) y)) (at (w ! j))"
  using assms(1)
proof (induction X y rule: list_induct2')
  case (4 x X b y)
  have x: "length x = length w" and X: "\<forall>x\<in>set X. length x = length w"
    using 4(2) by simp_all
  have D: "((\<lambda>t. (dot_spec x (w[j := t]) - b)\<^sup>2
               + sum_list (map2 (\<lambda>a b. (a - b)\<^sup>2) (predict_spec (w[j := t]) X) y))
          has_field_derivative
          2 * (x ! j * (dot_spec x w - b))
            + 2 * dot_spec (column X j) (map2 (-) (predict_spec w X) y)) (at (w ! j))"
    by (rule DERIV_add[OF sq_err_deriv[OF x assms(2)] 4(1)[OF X]])
  have eq: "2 * dot_spec (column (x # X) j) (map2 (-) (predict_spec w (x # X)) (b # y))
      = 2 * (x ! j * (dot_spec x w - b))
        + 2 * dot_spec (column X j) (map2 (-) (predict_spec w X) y)"
    by (simp add: predict_spec_def column_def)
  have fn: "(\<lambda>t. sum_list (map2 (\<lambda>a b. (a - b)\<^sup>2) (predict_spec (w[j := t]) (x # X)) (b # y)))
      = (\<lambda>t. (dot_spec x (w[j := t]) - b)\<^sup>2
               + sum_list (map2 (\<lambda>a b. (a - b)\<^sup>2) (predict_spec (w[j := t]) X) y))"
    by (simp add: predict_spec_def)
  show ?case
    unfolding fn eq by (rule D)
qed (simp_all add: predict_spec_def column_def)

lemma mse_spec_deriv:
  assumes "\<forall>x\<in>set X. length x = length w" "j < length w"
  shows "((\<lambda>t. mse_spec (predict_spec (w[j := t]) X) y) has_field_derivative
            gradient_spec w X y ! j) (at (w ! j))"
proof -
  have "((\<lambda>t. sum_list (map2 (\<lambda>a b. (a - b)\<^sup>2) (predict_spec (w[j := t]) X) y) / real (length X))
          has_field_derivative
          2 * dot_spec (column X j) (map2 (-) (predict_spec w X) y) / real (length X)) (at (w ! j))"
    by (rule DERIV_cdivide[OF sum_sq_err_deriv[OF assms]])
  then show ?thesis
    using assms(2) by (simp add: mse_spec_def gradient_spec_def predict_spec_def)
qed

subsection \<open>Both classes on real datasets\<close>

lemma row2_of_vec: "length w = n \<Longrightarrow> row2 (of_vec w) = of_mat n [w]"
  by (simp add: row2_def of_mat_def)

lemma zeros2_row: "zeros2 (Suc 0) n = of_mat n [replicate n 0]"
  by (simp add: zeros2_def of_mat_def of_vec_def)

lemma LinearRegression_init_row:
  "LinearRegression_init n 1 \<eta> = \<lparr>W = of_mat n [replicate n 0], lr = \<eta>\<rparr>"
  by (simp add: LinearRegression_init_def zeros2_row)

lemma MixedLinearRegression_init_row:
  "MixedLinearRegression_init n 1 \<eta>
     = \<lparr>W_data = of_mat n [replicate n 0], W_grad = None, mixed_lr = \<eta>\<rparr>"
  by (simp add: MixedLinearRegression_init_def zeros2_row)

lemma predict_real:
  assumes "length w = n"
  shows "LinearRegression_predict \<lparr>W = of_mat n [w], lr = \<eta>\<rparr> (of_mat n X)
       = Inr (of_vec (predict_spec w X), \<lparr>W = of_mat n [w], lr = \<eta>\<rparr>)"
  using predict_row[of "of_mat n X" "of_vec w" \<eta>] assms
  by (simp add: row2_of_vec mv_of_mat)

lemma update_weight_real:
  assumes "\<forall>x\<in>set X. length x = n" "X \<noteq> []" "length y = length X" "length w = n"
  shows "LinearRegression_update_weight \<lparr>W = of_mat n [w], lr = \<eta>\<rparr> (of_mat n X) (of_vec y)
       = Inr \<lparr>W = of_mat n [gd_step \<eta> X y w], lr = \<eta>\<rparr>"
  using update_row[of "of_mat n X" "of_vec w" "of_vec y" \<eta>] assms
  by (simp add: row2_of_vec numpy_step_of)

lemma train_loop_real:
  assumes "\<forall>x\<in>set X. length x = n" "X \<noteq> []" "length y = length X" "length w = n"
  shows "LinearRegression_train_loop k \<lparr>W = of_mat n [w], lr = \<eta>\<rparr> (of_mat n X) (of_vec y) []
       = Inr (map (\<lambda>i. Num (mse_spec (predict_spec ((gd_step \<eta> X y ^^ Suc i) w) X) y)) [0..<k],
              \<lparr>W = of_mat n [(gd_step \<eta> X y ^^ k) w], lr = \<eta>\<rparr>)"
proof -
  have ne: "predict_spec v X \<noteq> []" and len: "length (predict_spec v X) = length y" for v
    using assms(2,3) by (simp_all add: predict_spec_def)
  have "numpy_step \<eta> (of_mat n X) (of_vec y) ((numpy_step \<eta> (of_mat n X) (of_vec y) ^^ i) (of_vec w))
      = of_vec ((gd_step \<eta> X y ^^ Suc i) w)" for i
    using funpow_numpy_step_of[OF assms(1,2,4), where k = "Suc i" and y = y and \<eta> = \<eta>] by simp
  then show ?thesis
    using train_loop_row[of "of_mat n X" "of_vec w" "of_vec y" k \<eta> "[]"] assms(3,4)
    by (simp add: row2_of_vec funpow_numpy_step_of[OF assms(1,2,4)] mv_of_mat mse1_of[OF ne len])
qed

lemma mixed_train_loop_real:
  assumes "\<forall>x\<in>set X. length x = n" "X \<noteq> []" "length y = length X" "length w = n"
    and "g0 = None \<or> g0 = Some (zeros2 1 n)"
  shows "MixedLinearRegression_train_loop k
           \<lparr>W_data = of_mat n [w], W_grad = g0, mixed_lr = \<eta>\<rparr> (of_mat n X) (of_vec y) []
       = Inr (map (\<lambda>i. Num (mse_spec (predict_spec ((gd_step \<eta> X y ^^ i) w) X) y)) [0..<k],
              \<lparr>W_data = of_mat n [(gd_step \<eta> X y ^^ k) w],
               W_grad = (if k = 0 then g0 else Some (zeros2 1 n)), mixed_lr = \<eta>\<rparr>)"
proof -
  have ne: "predict_spec v X \<noteq> []" and len: "length (predict_spec v X) = length y" for v
    using assms(2,3) by (simp_all add: predict_spec_def)
  show ?thesis
    using mixed_train_loop_row[of "of_mat n X" "of_vec w" "of_vec y" g0 k \<eta> "[]"] assms(3,4,5)
    by (simp add: row2_of_vec funpow_torch_step_of[OF assms(1,2,4,3)] mv_of_mat mse1_of[OF ne len])
qed

lemma W_grad_real:
  assumes "\<forall>x\<in>set X. length x = n" "X \<noteq> []" "length y = length X" "length w = n"
  shows "LinearRegression_W_grad (of_mat n X) (of_vec (predict_spec w X)) (of_vec y)
       = Inr (of_vec (gradient_spec w X y))"
proof -
  have m: "real (length X) \<noteq> 0" using assms(2) by simp
  have "numpy_grad (of_mat n X) (of_vec y) (of_vec w) = of_vec (gradient_spec w X y)"
    unfolding numpy_grad_def nrows_of_mat mv_of_mat map2_of_vec[of fsub "(-)", OF fsub_Num]
      mv_transpose_of_mat[OF assms(1)] scalar_mul_of_vec scalar_div_of_vec[OF m]
    by (simp add: gradient_spec_def assms(4) comp_def)
  then show ?thesis
    using W_grad_row[of "of_vec y" "of_mat n X" "of_vec w"] assms(3)
    by (simp add: mv_of_mat)
qed

lemma autograd_real:
  assumes "\<forall>x\<in>set X. length x = n" "X \<noteq> []" "length y = length X" "length w = n"
  shows "\<exists>y_hat loss.
           MixedLinearRegression_predict
             \<lparr>W_data = of_mat n [w], W_grad = None, mixed_lr = \<eta>\<rparr> (of_mat n X)
             = Inr (y_hat, \<lparr>W_data = of_mat n [w], W_grad = None, mixed_lr = \<eta>\<rparr>)
         \<and> MixedLinearRegression_loss
             \<lparr>W_data = of_mat n [w], W_grad = None, mixed_lr = \<eta>\<rparr> y_hat (of_vec y)
             = Inr (loss, \<lparr>W_data = of_mat n [w], W_grad = None, mixed_lr = \<eta>\<rparr>)
         \<and> W_grad (backward \<lparr>W_data = of_mat n [w], W_grad = None, mixed_lr = \<eta>\<rparr> loss)
             = Some (of_mat n [gradient_spec w X y])"
proof -
  let ?s = "\<lparr>W_data = row2 (of_vec w), W_grad = None, mixed_lr = \<eta>\<rparr>"
  let ?X = "of_mat n X"
  have c: "ncols ?X = length (of_vec w)" and l: "length (of_vec y) = nrows ?X"
    and l': "length (mv ?X (of_vec w)) = length (of_vec y)"
    using assms by simp_all
  have len: "length (gradient_spec w X y) = n"
    using assms(4) by (simp add: gradient_spec_def)
  have "W_grad (backward ?s
           (mse1 (mv ?X (of_vec w)) (of_vec y),
            \<lambda>g. row2 (mv (transpose2 ?X) (map2 (pow_backward 2) (map2 fsub (mv ?X (of_vec w)) (of_vec y))
                         (replicate (nrows ?X) (fdiv g (Num (real (nrows ?X)))))))))
        = Some (of_mat n [gradient_spec w X y])"
    unfolding mixed_backward_row[OF c l disjI1[OF refl]]
    by (simp add: autograd_grad_of[OF assms(1,2,4,3)] row2_of_vec[OF len])
  then show ?thesis
    using mixed_predict_row[OF c, of None \<eta>] mixed_loss_row[OF l', of ?s]
    by (simp add: row2_of_vec[OF assms(4)])
qed

subsection \<open>Sums over indices, and the prediction as a linear map\<close>

lemma dot_spec_sum:
  "length a = length b \<Longrightarrow> dot_spec a b = (\<Sum>i<length a. a ! i * b ! i)"
proof (induction a b rule: list_induct2)
  case Nil
  then show ?case by simp
next
  case (Cons u a v b)
  have "(\<Sum>i<Suc (length a). (u # a) ! i * (v # b) ! i)
      = u * v + (\<Sum>i<length a. a ! i * b ! i)"
    by (subst sum.lessThan_Suc_shift) simp
  then show ?case
    using Cons by simp
qed


lemma gradient_spec_nth:
  assumes "length y = length X" "j < length w"
  shows "gradient_spec w X y ! j
       = 2 / real (length X) * (\<Sum>i<length X. X ! i ! j * (predict_spec w X ! i - y ! i))"
proof -
  have "dot_spec (column X j) (map2 (-) (predict_spec w X) y)
      = (\<Sum>i<length X. column X j ! i * map2 (-) (predict_spec w X) y ! i)"
    using dot_spec_sum[of "column X j" "map2 (-) (predict_spec w X) y"] assms(1)
    by (simp add: column_def predict_spec_def)
  also have "\<dots> = (\<Sum>i<length X. X ! i ! j * (predict_spec w X ! i - y ! i))"
    using assms(1) by (intro sum.cong refl) (simp add: column_def predict_spec_def)
  finally show ?thesis
    using assms(2) by (simp add: gradient_spec_def)
qed

lemma gd_step_nth:
  assumes "length y = length X" "length w = n"
  shows "gd_step \<eta> X y w
       = map (\<lambda>j. w ! j - \<eta> * (2 / real (length X)
                * (\<Sum>i<length X. X ! i ! j * (predict_spec w X ! i - y ! i)))) [0..<n]"
proof (rule nth_equalityI)
  show "length (gd_step \<eta> X y w) = length (map (\<lambda>j. w ! j - \<eta> * (2 / real (length X)
                * (\<Sum>i<length X. X ! i ! j * (predict_spec w X ! i - y ! i)))) [0..<n])"
    using assms(2) by simp
next
  fix j assume "j < length (gd_step \<eta> X y w)"
  then have j: "j < length w" by simp
  then show "gd_step \<eta> X y w ! j = map (\<lambda>j. w ! j - \<eta> * (2 / real (length X)
                * (\<Sum>i<length X. X ! i ! j * (predict_spec w X ! i - y ! i)))) [0..<n] ! j"
    using assms(2) gradient_spec_nth[OF assms(1) j]
    by (auto simp: gd_step_def gradient_spec_def)
qed






subsection \<open>Empty datasets and repeated updates\<close>

lemma mse1_empty: "mse1 [] y = NaN"
  by (simp add: mse1_def np_mean_def np_power_def finf_def)

lemma mv_empty: "nrows X = 0 \<Longrightarrow> mv X w = []"
  by (simp add: mv_def nrows_def)

lemma repeat_update_weight_row:
  assumes "ncols X = length w" "length y = nrows X"
  shows "repeat_update_weight k \<lparr>W = row2 w, lr = \<eta>\<rparr> X y
       = Inr \<lparr>W = row2 ((numpy_step \<eta> X y ^^ k) w), lr = \<eta>\<rparr>"
  using assms
proof (induction k arbitrary: w)
  case 0
  then show ?case by simp
next
  case (Suc k)
  have len1: "ncols X = length (numpy_step \<eta> X y w)"
    using Suc.prems by (simp add: length_numpy_step)
  show ?case
    using Suc.IH[OF len1 Suc.prems(2)]
    by (simp add: update_row[OF Suc.prems] funpow_swap1)
qed

subsection \<open>What the methods leave unchanged\<close>

lemma ebind_eq_Inr: "ebind r f = Inr v \<longleftrightarrow> (\<exists>x. r = Inr x \<and> f x = Inr v)"
  by (cases r) simp_all

lemma predict_frame:
  "LinearRegression_predict self X = Inr (r, self') \<Longrightarrow> self' = self"
  by (auto simp: LinearRegression_predict_def ebind_eq_Inr)

lemma loss_frame:
  "LinearRegression_loss self y_hat y = Inr (l, self') \<Longrightarrow> self' = self"
  by (auto simp: LinearRegression_loss_def ebind_eq_Inr)

lemma update_weight_lr:
  "LinearRegression_update_weight self X y = Inr self' \<Longrightarrow> lr self' = lr self"
  by (auto simp: LinearRegression_update_weight_def ebind_eq_Inr dest!: predict_frame)

lemma train_loop_lr:
  "LinearRegression_train_loop k self X y h = Inr (h', self') \<Longrightarrow> lr self' = lr self"
proof (induction k arbitrary: self h)
  case 0
  then show ?case by simp
next
  case (Suc k)
  then obtain s1 y_hat s2 l s3 where
    u: "LinearRegression_update_weight self X y = Inr s1"
    and p: "LinearRegression_predict s1 X = Inr (y_hat, s2)"
    and l: "LinearRegression_loss s2 y_hat y = Inr (l, s3)"
    and r: "LinearRegression_train_loop k s3 X y (h @ [l]) = Inr (h', self')"
    by (auto simp: ebind_eq_Inr)
  have "lr s3 = lr self"
    using update_weight_lr[OF u] predict_frame[OF p] loss_frame[OF l] by simp
  then show ?case
    using Suc.IH[OF r] by simp
qed

lemma mixed_predict_frame:
  "MixedLinearRegression_predict self X = Inr (t, self') \<Longrightarrow> self' = self"
  by (auto simp: MixedLinearRegression_predict_def ebind_eq_Inr)

lemma mixed_loss_frame:
  "MixedLinearRegression_loss self t y = Inr (l, self') \<Longrightarrow> self' = self"
  by (auto simp: MixedLinearRegression_loss_def ebind_eq_Inr)

lemma backward_frame:
  "W_data (backward self l) = W_data self" "mixed_lr (backward self l) = mixed_lr self"
  by (simp_all add: backward_def Let_def)

lemma mixed_update_weight_frame:
  "MixedLinearRegression_update_weight self = Inr self' \<Longrightarrow>
     mixed_lr self' = mixed_lr self \<and> W_grad self' = W_grad self"
  by (auto simp: MixedLinearRegression_update_weight_def split: option.splits)

lemma zero_grad_frame:
  "zero_grad self = Inr self' \<Longrightarrow> W_data self' = W_data self \<and> mixed_lr self' = mixed_lr self"
  by (auto simp: zero_grad_def split: option.splits)

lemma mixed_train_loop_lr:
  "MixedLinearRegression_train_loop k self X y h = Inr (h', self') \<Longrightarrow>
     mixed_lr self' = mixed_lr self"
proof (induction k arbitrary: self h)
  case 0
  then show ?case by simp
next
  case (Suc k)
  then obtain y_hat s1 l s2 s3 s4 where
    p: "MixedLinearRegression_predict self X = Inr (y_hat, s1)"
    and l: "MixedLinearRegression_loss s1 y_hat y = Inr (l, s2)"
    and u: "MixedLinearRegression_update_weight (backward s2 l) = Inr s3"
    and z: "zero_grad s3 = Inr s4"
    and r: "MixedLinearRegression_train_loop k s4 X y (h @ [fst l]) = Inr (h', self')"
    by (auto simp: ebind_eq_Inr)
  have "mixed_lr s4 = mixed_lr self"
    using mixed_predict_frame[OF p] mixed_loss_frame[OF l] mixed_update_weight_frame[OF u]
      zero_grad_frame[OF z] backward_frame(2)[of s2 l]
    by simp
  then show ?case
    using Suc.IH[OF r] by simp
qed

subsection \<open>Zero weights\<close>

lemma dot_spec_zero_right: "dot_spec x (replicate n 0) = 0"
proof (induction x arbitrary: n)
  case Nil
  then show ?case by simp
next
  case (Cons a x)
  then show ?case by (cases n) simp_all
qed

lemma predict_spec_zero: "predict_spec (replicate n 0) X = replicate (length X) 0"
  by (simp add: predict_spec_def dot_spec_zero_right map_replicate_const)

lemma mse_spec_zero:
  "length y = m \<Longrightarrow> mse_spec (replicate m 0) y = sum_list (map (\<lambda>v. v\<^sup>2) y) / real (length y)"
proof -
  have "sum_list (map2 (\<lambda>a b. (a - b)\<^sup>2) (replicate (length y) 0) y) = sum_list (map (\<lambda>v. v\<^sup>2) y)"
    by (induction y) simp_all
  then show "length y = m \<Longrightarrow> ?thesis"
    by (auto simp: mse_spec_def)
qed

subsection \<open>Worked examples\<close>

lemma example_train_two_epochs:
  "LinearRegression_train (LinearRegression_init 1 1 (1/100)) (of_mat 1 [[1]]) (of_vec [1]) 2
     = Inr ([Num (2401/2500), Num (5764801/6250000)],
            \<lparr>W = of_mat 1 [[99/2500]], lr = 1/100\<rparr>)"
  "MixedLinearRegression_train (MixedLinearRegression_init 1 1 (1/100)) (of_mat 1 [[1]])
       (of_vec [1]) 2
     = Inr ([Num 1, Num (2401/2500)],
            \<lparr>W_data = of_mat 1 [[99/2500]], W_grad = Some (zeros2 1 1), mixed_lr = 1/100\<rparr>)"
proof -
  have h: "\<forall>x\<in>set [[1::real]]. length x = 1" "[[1::real]] \<noteq> []"
    "length [1::real] = length [[1::real]]" "length [0::real] = 1"
    by simp_all
  have i: "LinearRegression_init 1 1 (1/100) = \<lparr>W = of_mat 1 [[0]], lr = 1/100\<rparr>"
    using LinearRegression_init_row[of 1 "1/100"] by simp
  have i': "MixedLinearRegression_init 1 1 (1/100)
      = \<lparr>W_data = of_mat 1 [[0]], W_grad = None, mixed_lr = 1/100\<rparr>"
    using MixedLinearRegression_init_row[of 1 "1/100"] by simp
  have g: "gd_step (1/100) [[1]] [1] [v] = [v - 1/100 * (2 * (v - 1))]" for v
    by (simp add: gd_step_def gradient_spec_def predict_spec_def column_def)
  have m: "mse_spec (predict_spec [v] [[1]]) [1] = (v - 1)\<^sup>2" for v
    by (simp add: mse_spec_def predict_spec_def)
  show "LinearRegression_train (LinearRegression_init 1 1 (1/100)) (of_mat 1 [[1]]) (of_vec [1]) 2
     = Inr ([Num (2401/2500), Num (5764801/6250000)],
            \<lparr>W = of_mat 1 [[99/2500]], lr = 1/100\<rparr>)"
    unfolding i LinearRegression_train_def train_loop_real[OF h]
    by (simp add: numeral_2_eq_2 g m power2_eq_square)
  show "MixedLinearRegression_train (MixedLinearRegression_init 1 1 (1/100)) (of_mat 1 [[1]])
       (of_vec [1]) 2
     = Inr ([Num 1, Num (2401/2500)],
            \<lparr>W_data = of_mat 1 [[99/2500]], W_grad = Some (zeros2 1 1), mixed_lr = 1/100\<rparr>)"
    unfolding i' MixedLinearRegression_train_def mixed_train_loop_real[OF h disjI1[OF refl]]
    by (simp add: numeral_2_eq_2 g m power2_eq_square)
qed

lemma example_framework_train:
  "train (LinReg_init 1 (\<lambda>j. 0) 0) (of_mat 1 [[1]]) (of_mat 1 [[1]]) 2
     = Inr ([Num 1, Num (576/625)],
            \<lparr>beta_weight = of_mat 1 [[49/1250]], beta_bias = of_vec [49/1250],
             beta_weight_grad = Some (of_mat 1 [[- (48/25)]]),
             beta_bias_grad = Some (of_vec [- (48/25)])\<rparr>)"
  by (simp add: train_def LinReg_init_def numeral_2_eq_2 LinReg_forward_def F_linear_def
      optimizer_zero_grad_def of_mat_def of_vec_def nrows_def dot1_def mse_loss_def
      broadcast_shape_def Let_def expand2_def sub2_def loss_backward_def sum_to_shape_def
      pow_backward_def optimizer_step_def optimizer_lr_def scalar_mul2_def scalar_mul_def mm_def
      transpose2_def col_def zeros2_def add2_def power2_eq_square)

subsection \<open>The framework version on shapes that fit\<close>

lemma transpose2_unsqueeze: "transpose2 (unsqueeze g) = row2 g"
  using col_unsqueeze[of g]
  by (simp add: transpose2_def row2_def nrows_def unsqueeze_def col_def comp_def)

lemma F_linear_row:
  assumes "ncols X = length a"
  shows "F_linear X (row2 a) [b]
       = Inr (unsqueeze (map (\<lambda>x. fadd (dot1 x a) b) (rows X)),
              \<lambda>G. (mm (transpose2 G) X, map fsum (rows (transpose2 G))))"
  using assms by (simp add: F_linear_def row2_def unsqueeze_def nrows_def)

lemma broadcast_shape_same: "broadcast_shape (m, c) (m, c) = Some (m, c)"
  by (simp add: broadcast_shape_def)

lemma expand2_unsqueeze: "expand2 (length p, 1) (unsqueeze p) = unsqueeze p"
  by (simp add: expand2_def unsqueeze_def nrows_def)

lemma sum_to_shape_same: "nrows G = m \<Longrightarrow> ncols G = c \<Longrightarrow> sum_to_shape (m, c) G = G"
  by (simp add: sum_to_shape_def)

lemma sub2_unsqueeze: "sub2 (unsqueeze p) (unsqueeze t) = unsqueeze (map2 fsub p t)"
  by (induction p t rule: list_induct2') (simp_all add: sub2_def unsqueeze_def)

lemma concat_map_unsqueeze: "concat (map (map f) (rows (unsqueeze d))) = map f d"
  by (induction d) (simp_all add: unsqueeze_def)

lemma map_map_unsqueeze:
  "\<lparr>ncols = 1, rows = map (map f) (rows (unsqueeze d))\<rparr> = unsqueeze (map f d)"
  by (simp add: unsqueeze_def comp_def)

lemma mse_loss_unsqueeze:
  assumes "length p = length t"
  shows "mse_loss (unsqueeze p, bk) (unsqueeze t)
       = Inr (mse1 p t,
              \<lambda>g. bk (unsqueeze (map (\<lambda>x. pow_backward 2 x (fdiv g (Num (real (length p)))))
                                   (map2 fsub p t))))"
proof -
  let ?m = "length p"
  let ?d = "map2 fsub p t"
  have s: "nrows (unsqueeze p) = ?m" "ncols (unsqueeze p) = 1"
    "nrows (unsqueeze t) = ?m" "ncols (unsqueeze t) = 1"
    using assms by (simp_all add: unsqueeze_def nrows_def)
  have b: "broadcast_shape (nrows (unsqueeze p), ncols (unsqueeze p))
             (nrows (unsqueeze t), ncols (unsqueeze t)) = Some (?m, Suc 0)"
    unfolding s using broadcast_shape_same[of ?m 1] by simp
  have e: "expand2 (?m, Suc 0) (unsqueeze p) = unsqueeze p"
    "expand2 (?m, Suc 0) (unsqueeze t) = unsqueeze t"
    using expand2_unsqueeze[of p] expand2_unsqueeze[of t] assms by simp_all
  have st: "sum_to_shape (nrows (unsqueeze p), ncols (unsqueeze p))
              \<lparr>ncols = Suc 0, rows = map (map f) (rows (unsqueeze ?d))\<rparr>
      = unsqueeze (map f ?d)" for f
    unfolding map_map_unsqueeze[simplified] s using assms
    by (intro sum_to_shape_same) (simp_all add: unsqueeze_def nrows_def)
  have v: "fdiv (fsum (concat (map (map (\<lambda>x. fpow x 2)) (rows (unsqueeze ?d)))))
             (Num (real ?m)) = mse1 p t"
    unfolding concat_map_unsqueeze using assms
    by (simp add: mse1_def np_mean_def np_power_def)
  show ?thesis
    by (simp add: mse_loss_def Let_def b e sub2_unsqueeze v st)
qed

lemma rows_row2: "rows (row2 g) = [g]"
  by (simp add: row2_def)

lemma mm_row2: "mm (row2 g) X = row2 (weight_grad X g)"
  by (simp add: mm_def row2_def weight_grad_def)

lemma length_weight_grad [simp]: "length (weight_grad X g) = ncols X"
  by (simp add: weight_grad_def)

lemma zero_grad_record:
  "optimizer_zero_grad
     \<lparr>beta_weight = A, beta_bias = b, beta_weight_grad = gw0, beta_bias_grad = gb0\<rparr>
   = \<lparr>beta_weight = A, beta_bias = b, beta_weight_grad = None, beta_bias_grad = None\<rparr>"
  by (simp add: optimizer_zero_grad_def)

lemma framework_epoch_row:
  assumes "ncols X = length a" and "length t = nrows X"
  shows "train_loop (Suc k)
           \<lparr>beta_weight = row2 a, beta_bias = [b], beta_weight_grad = gw0, beta_bias_grad = gb0\<rparr>
           X (unsqueeze t) h
       = train_loop k
           \<lparr>beta_weight = row2 (map2 fsub a (scalar_mul (Num optimizer_lr)
                                   (weight_grad X (mse_grad (linear_out X a b) t)))),
            beta_bias = [fsub b (fmul (Num optimizer_lr) (fsum (mse_grad (linear_out X a b) t)))],
            beta_weight_grad = Some (row2 (weight_grad X (mse_grad (linear_out X a b) t))),
            beta_bias_grad = Some [fsum (mse_grad (linear_out X a b) t)]\<rparr>
           X (unsqueeze t) (h @ [mse1 (linear_out X a b) t])"
proof -
  let ?p = "linear_out X a b"
  let ?gv = "mse_grad ?p t"
  let ?gw = "weight_grad X ?gv"
  let ?Z = "\<lparr>beta_weight = row2 a, beta_bias = [b],
          beta_weight_grad = None, beta_bias_grad = None\<rparr>"
  have len: "length ?p = length t"
    using assms(2) by (simp add: linear_out_def nrows_def)
  have fwd: "LinReg_forward ?Z X
      = Inr ((unsqueeze ?p, \<lambda>G. (mm (transpose2 G) X, map fsum (rows (transpose2 G)))), ?Z)"
    by (simp add: LinReg_forward_def F_linear_row[OF assms(1)] linear_out_def)
  have bwd: "loss_backward
        \<lparr>beta_weight = row2 a, beta_bias = [b], beta_weight_grad = None, beta_bias_grad = None\<rparr>
        (mse1 ?p t,
         \<lambda>g. (mm (transpose2 (unsqueeze (map (\<lambda>x. pow_backward 2 x (fdiv g (Num (real (length ?p)))))
                                           (map2 fsub ?p t)))) X,
               map fsum (rows (transpose2 (unsqueeze (map (\<lambda>x. pow_backward 2 x (fdiv g (Num (real (length ?p)))))
                                           (map2 fsub ?p t)))))))
      = \<lparr>beta_weight = row2 a, beta_bias = [b],
         beta_weight_grad = Some (row2 ?gw), beta_bias_grad = Some [fsum ?gv]\<rparr>"
    unfolding loss_backward_def Let_def snd_conv fst_conv transpose2_unsqueeze mm_row2 rows_row2
      mse_grad_def[symmetric]
    by simp
  have step: "optimizer_step \<lparr>beta_weight = row2 a, beta_bias = [b],
         beta_weight_grad = Some (row2 ?gw), beta_bias_grad = Some [fsum ?gv]\<rparr>
      = \<lparr>beta_weight = row2 (map2 fsub a (scalar_mul (Num optimizer_lr) ?gw)),
         beta_bias = [fsub b (fmul (Num optimizer_lr) (fsum ?gv))],
         beta_weight_grad = Some (row2 ?gw), beta_bias_grad = Some [fsum ?gv]\<rparr>"
    using assms(1) by (simp add: optimizer_step_def sub2_scalar_mul2_row2 scalar_mul_def)
  show ?thesis
    unfolding train_loop.simps zero_grad_record fwd ebind_simps prod.case
      mse_loss_unsqueeze[OF len] fst_conv
    by (simp only: bwd step)
qed

subsection \<open>The framework version on real datasets\<close>

lemma dot_spec_commute: "dot_spec a b = dot_spec b a"
  by (induction a b rule: list_induct2') simp_all

lemma unsqueeze_of_vec: "unsqueeze (of_vec y) = of_mat 1 (map (\<lambda>v. [v]) y)"
  by (simp add: unsqueeze_def of_mat_def of_vec_def)

lemma linear_out_of:
  "linear_out (of_mat n X) (of_vec a) (Num b) = of_vec (predict_spec (b # a) (augment X))"
  by (simp add: linear_out_def of_mat_def dot1_of_vec predict_spec_def augment_def of_vec_map
      comp_def add.commute)

lemma mse_grad_of:
  assumes "p \<noteq> []"
  shows "mse_grad (of_vec p) (of_vec y)
       = of_vec (map (\<lambda>x. 2 / real (length p) * x) (map2 (-) p y))"
  using assms
  by (simp add: mse_grad_def map2_of_vec[of fsub "(-)", OF fsub_Num] of_vec_map pow_backward_Num)

lemma weight_grad_of:
  assumes "\<forall>x\<in>set X. length x = n"
  shows "weight_grad (of_mat n X) (of_vec g) = of_vec (map (\<lambda>j. dot_spec (column X j) g) [0..<n])"
proof -
  have "map (\<lambda>j. dot1 (of_vec g) (col (of_mat n X) j)) [0..<n]
      = map (\<lambda>j. Num (dot_spec (column X j) g)) [0..<n]"
    by (rule map_cong[OF refl])
       (simp add: col_of_mat[OF assms] dot1_of_vec dot_spec_commute[of g])
  then show ?thesis
    by (simp add: weight_grad_def of_vec_map)
qed

lemma column_augment: "column (augment X) 0 = replicate (length X) 1"
  "column (augment X) (Suc j) = column X j"
  by (simp_all add: column_def augment_def comp_def map_replicate_const)

lemma dot_spec_ones: "length d = m \<Longrightarrow> dot_spec (replicate m 1) d = sum_list d"
  by (induction d arbitrary: m) auto

lemma gradient_spec_augment:
  assumes "length y = length X" "length a = n"
  shows "gradient_spec (b # a) (augment X) y
       = (2 / real (length X) * sum_list (map2 (-) (predict_spec (b # a) (augment X)) y))
         # map (\<lambda>j. 2 / real (length X)
                     * dot_spec (column X j) (map2 (-) (predict_spec (b # a) (augment X)) y))
             [0..<n]"
proof -
  have len: "length (map2 (-) (predict_spec (b # a) (augment X)) y) = length X"
    using assms(1) by (simp add: predict_spec_def augment_def)
  have up: "[0..<Suc n] = 0 # map Suc [0..<n]"
    by (simp only: map_Suc_upt upt_conv_Cons[OF zero_less_Suc])
  show ?thesis
    unfolding gradient_spec_def
    using assms(2) dot_spec_ones[OF len]
    by (simp add: up column_augment comp_def augment_def[symmetric] del: upt_Suc)
       (simp add: augment_def)
qed

lemma sum_list_scale: "sum_list (map (\<lambda>x. c * x) d) = c * sum_list (d :: real list)"
  by (induction d) (simp_all add: algebra_simps)

lemma framework_epoch_real:
  assumes "\<forall>x\<in>set X. length x = n" and "X \<noteq> []" and "length y = length X"
    and "length a = n"
  shows "\<exists>gw1 gb1 a' b'.
           train_loop (Suc k)
             \<lparr>beta_weight = of_mat n [a], beta_bias = of_vec [b],
              beta_weight_grad = gw0, beta_bias_grad = gb0\<rparr>
             (of_mat n X) (unsqueeze (of_vec y)) h
           = train_loop k
             \<lparr>beta_weight = of_mat n [a'], beta_bias = of_vec [b'],
              beta_weight_grad = gw1, beta_bias_grad = gb1\<rparr>
             (of_mat n X) (unsqueeze (of_vec y))
             (h @ [Num (mse_spec (predict_spec (b # a) (augment X)) y)])
         \<and> b' # a' = gd_step optimizer_lr (augment X) y (b # a)
         \<and> length a' = n"
proof -
  let ?P = "predict_spec (b # a) (augment X)"
  let ?D = "map2 (-) ?P y"
  let ?c = "2 / real (length X)"
  let ?gb = "?c * sum_list ?D"
  let ?gw = "map (\<lambda>j. ?c * dot_spec (column X j) ?D) [0..<n]"
  let ?a' = "map2 (\<lambda>w g. w - optimizer_lr * g) a ?gw"
  let ?b' = "b - optimizer_lr * ?gb"
  have lenP: "length ?P = length X" "?P \<noteq> []" "length ?P = length y"
    using assms(2,3) by (simp_all add: predict_spec_def augment_def)
  have c: "ncols (of_mat n X) = length (of_vec a)" and l: "length (of_vec y) = nrows (of_mat n X)"
    using assms(3,4) by simp_all
  have gv: "mse_grad (of_vec ?P) (of_vec y) = of_vec (map (\<lambda>x. ?c * x) ?D)"
    using mse_grad_of[OF lenP(2), of y] lenP(1) by simp
  have gw: "weight_grad (of_mat n X) (of_vec (map (\<lambda>x. ?c * x) ?D)) = of_vec ?gw"
    unfolding weight_grad_of[OF assms(1)] dot_spec_scale ..
  have gb: "fsum (of_vec (map (\<lambda>x. ?c * x) ?D)) = Num ?gb"
    unfolding fsum_of_vec sum_list_scale ..
  have a': "map2 fsub (of_vec a) (scalar_mul (Num optimizer_lr) (of_vec ?gw)) = of_vec ?a'"
    unfolding scalar_mul_of_vec map2_of_vec[of fsub "(-)", OF fsub_Num]
    by (simp add: zip_map2 comp_def split_def)
  have b': "fsub (Num b) (fmul (Num optimizer_lr) (Num ?gb)) = Num ?b'"
    by simp
  have ms: "mse1 (of_vec ?P) (of_vec y) = Num (mse_spec ?P y)"
    by (rule mse1_of[OF lenP(2,3)])
  have step: "?b' # ?a' = gd_step optimizer_lr (augment X) y (b # a)"
    unfolding gd_step_def gradient_spec_augment[OF assms(3,4)] by simp
  have r: "row2 (of_vec ?a') = of_mat n [?a']"
    using assms(4) by (intro row2_of_vec) simp
  have r0: "row2 (of_vec a) = of_mat n [a]"
    by (rule row2_of_vec[OF assms(4)])
  have "train_loop (Suc k)
             \<lparr>beta_weight = of_mat n [a], beta_bias = of_vec [b],
              beta_weight_grad = gw0, beta_bias_grad = gb0\<rparr>
             (of_mat n X) (unsqueeze (of_vec y)) h
           = train_loop k
             \<lparr>beta_weight = of_mat n [?a'], beta_bias = of_vec [?b'],
              beta_weight_grad = Some (row2 (of_vec ?gw)), beta_bias_grad = Some [Num ?gb]\<rparr>
             (of_mat n X) (unsqueeze (of_vec y))
             (h @ [Num (mse_spec ?P y)])"
    using framework_epoch_row[OF c l, of k "Num b" gw0 gb0 h]
    unfolding linear_out_of gv gw gb a' b' ms r r0
    by (simp add: of_vec_def)
  moreover have "length ?a' = n"
    using assms(4) by simp
  ultimately show ?thesis
    using step by blast
qed

lemma framework_train_loop_real:
  assumes "\<forall>x\<in>set X. length x = n" and "X \<noteq> []" and "length y = length X"
    and "length a = n"
  shows "\<exists>s. train_loop k
             \<lparr>beta_weight = of_mat n [a], beta_bias = of_vec [b],
              beta_weight_grad = gw0, beta_bias_grad = gb0\<rparr>
             (of_mat n X) (unsqueeze (of_vec y)) h
           = Inr (h @ map (\<lambda>i. Num (mse_spec (predict_spec
                                 ((gd_step optimizer_lr (augment X) y ^^ i) (b # a)) (augment X)) y))
                        [0..<k], s)"
  using assms(4)
proof (induction k arbitrary: a b gw0 gb0 h)
  case 0
  then show ?case by simp
next
  case (Suc k)
  obtain gw1 gb1 a' b' where e:
    "train_loop (Suc k)
             \<lparr>beta_weight = of_mat n [a], beta_bias = of_vec [b],
              beta_weight_grad = gw0, beta_bias_grad = gb0\<rparr>
             (of_mat n X) (unsqueeze (of_vec y)) h
           = train_loop k
             \<lparr>beta_weight = of_mat n [a'], beta_bias = of_vec [b'],
              beta_weight_grad = gw1, beta_bias_grad = gb1\<rparr>
             (of_mat n X) (unsqueeze (of_vec y))
             (h @ [Num (mse_spec (predict_spec (b # a) (augment X)) y)])"
    and s: "b' # a' = gd_step optimizer_lr (augment X) y (b # a)"
    and i: "length a' = n"
    using framework_epoch_real[OF assms(1-3) Suc.prems, of k b gw0 gb0 h] by blast
  have shift: "map (\<lambda>i. Num (mse_spec (predict_spec
                  ((gd_step optimizer_lr (augment X) y ^^ i) (b # a)) (augment X)) y)) [0..<Suc k]
      = Num (mse_spec (predict_spec (b # a) (augment X)) y)
        # map (\<lambda>i. Num (mse_spec (predict_spec
                  ((gd_step optimizer_lr (augment X) y ^^ i) (b' # a')) (augment X)) y)) [0..<k]"
    by (simp only: map_upt_Suc) (simp add: funpow_swap1 s)
  show ?case
    using Suc.IH[OF i, of b' gw1 gb1 "h @ [Num (mse_spec (predict_spec (b # a) (augment X)) y)]"]
    unfolding e shift by simp
qed

lemma LinReg_init_of:
  "LinReg_init n a0 b0
     = \<lparr>beta_weight = of_mat n [map a0 [0..<n]], beta_bias = of_vec [b0],
        beta_weight_grad = None, beta_bias_grad = None\<rparr>"
  by (simp add: LinReg_init_def of_mat_def of_vec_def)

lemma framework_is_mixed_with_bias_feature:
  assumes "\<forall>x\<in>set X. length x = n" and "X \<noteq> []" and "length y = length X"
  shows "\<exists>h s3 s4.
           train (LinReg_init n a0 b0) (of_mat n X) (of_mat 1 (map (\<lambda>v. [v]) y)) epochs
             = Inr (h, s3)
         \<and> MixedLinearRegression_train
             \<lparr>W_data = of_mat (Suc n) [b0 # map a0 [0..<n]], W_grad = None, mixed_lr = optimizer_lr\<rparr>
             (of_mat (Suc n) (augment X)) (of_vec y) epochs
             = Inr (h, s4)"
proof -
  have wf': "\<forall>x\<in>set (augment X). length x = Suc n" and ne': "augment X \<noteq> []"
    and ly': "length y = length (augment X)"
    using assms by (simp_all add: augment_def)
  have la: "length (map a0 [0..<n]) = n" and lw: "length (b0 # map a0 [0..<n]) = Suc n"
    by simp_all
  obtain s3 where f: "train_loop (nat epochs)
             \<lparr>beta_weight = of_mat n [map a0 [0..<n]], beta_bias = of_vec [b0],
              beta_weight_grad = None, beta_bias_grad = None\<rparr>
             (of_mat n X) (unsqueeze (of_vec y)) []
           = Inr ([] @ map (\<lambda>i. Num (mse_spec (predict_spec
                                 ((gd_step optimizer_lr (augment X) y ^^ i) (b0 # map a0 [0..<n]))
                                 (augment X)) y))
                        [0..<nat epochs], s3)"
    using framework_train_loop_real[OF assms la, of "nat epochs" b0 None None "[]"]
    by blast
  show ?thesis
    unfolding train_def MixedLinearRegression_train_def LinReg_init_of
      unsqueeze_of_vec[symmetric] f
      mixed_train_loop_real[OF wf' ne' ly' lw disjI1[OF refl]]
    by simp
qed

subsection \<open>Below the largest number of a format\<close>







section \<open>The claims\<close>

text \<open>
  Claim C1. For every real dataset \<open>X\<close> (\<open>m \<ge> 1\<close> examples of \<open>n\<close> features) with labels \<open>y\<close>
  of length \<open>m\<close>, every learning rate and every epoch count, \<^verbatim>\<open>LinearRegression\<close> and
  \<^verbatim>\<open>MixedLinearRegression\<close>, both constructed with zero weights, hold the same weight
  matrix after training: at any weights \<open>w\<close> the hand-computed gradient
  \<open>2 X\<^sup>T (y_hat - y) / m\<close> of \<^verbatim>\<open>update_weight\<close> and the gradient that \<^verbatim>\<open>backward()\<close> leaves
  in \<^verbatim>\<open>W.grad\<close> are the same array of numbers, in exact arithmetic (the first one-dimensional,
  the second of shape \<open>(1, n)\<close>).
\<close>

theorem hand_gradient_is_autograd_gradient:
  assumes "\<forall>x\<in>set X. length x = n" and "X \<noteq> []" and "length y = length X"
  shows "(\<forall>w. length w = n \<longrightarrow>
            LinearRegression_W_grad (of_mat n X) (of_vec (predict_spec w X)) (of_vec y)
              = Inr (of_vec (gradient_spec w X y))
          \<and> (\<exists>y_hat loss.
                MixedLinearRegression_predict
                  \<lparr>W_data = of_mat n [w], W_grad = None, mixed_lr = \<eta>\<rparr> (of_mat n X)
                  = Inr (y_hat, \<lparr>W_data = of_mat n [w], W_grad = None, mixed_lr = \<eta>\<rparr>)
              \<and> MixedLinearRegression_loss
                  \<lparr>W_data = of_mat n [w], W_grad = None, mixed_lr = \<eta>\<rparr> y_hat (of_vec y)
                  = Inr (loss, \<lparr>W_data = of_mat n [w], W_grad = None, mixed_lr = \<eta>\<rparr>)
              \<and> W_grad (backward \<lparr>W_data = of_mat n [w], W_grad = None, mixed_lr = \<eta>\<rparr> loss)
                  = Some (of_mat n [gradient_spec w X y])))
       \<and> (\<exists>h1 h2 g.
            LinearRegression_train (LinearRegression_init n 1 \<eta>) (of_mat n X) (of_vec y) epochs
              = Inr (h1, \<lparr>W = of_mat n [(gd_step \<eta> X y ^^ nat epochs) (replicate n 0)], lr = \<eta>\<rparr>)
          \<and> MixedLinearRegression_train (MixedLinearRegression_init n 1 \<eta>) (of_mat n X) (of_vec y) epochs
              = Inr (h2, \<lparr>W_data = of_mat n [(gd_step \<eta> X y ^^ nat epochs) (replicate n 0)],
                          W_grad = g, mixed_lr = \<eta>\<rparr>))"
proof (intro conjI allI impI)
  fix w :: "real list" assume w: "length w = n"
  show "LinearRegression_W_grad (of_mat n X) (of_vec (predict_spec w X)) (of_vec y)
              = Inr (of_vec (gradient_spec w X y))"
    by (rule W_grad_real[OF assms w])
  show "\<exists>y_hat loss.
                MixedLinearRegression_predict
                  \<lparr>W_data = of_mat n [w], W_grad = None, mixed_lr = \<eta>\<rparr> (of_mat n X)
                  = Inr (y_hat, \<lparr>W_data = of_mat n [w], W_grad = None, mixed_lr = \<eta>\<rparr>)
              \<and> MixedLinearRegression_loss
                  \<lparr>W_data = of_mat n [w], W_grad = None, mixed_lr = \<eta>\<rparr> y_hat (of_vec y)
                  = Inr (loss, \<lparr>W_data = of_mat n [w], W_grad = None, mixed_lr = \<eta>\<rparr>)
              \<and> W_grad (backward \<lparr>W_data = of_mat n [w], W_grad = None, mixed_lr = \<eta>\<rparr> loss)
                  = Some (of_mat n [gradient_spec w X y])"
    by (rule autograd_real[OF assms w])
next
  have w0: "length (replicate n (0::real)) = n" by simp
  show "\<exists>h1 h2 g.
            LinearRegression_train (LinearRegression_init n 1 \<eta>) (of_mat n X) (of_vec y) epochs
              = Inr (h1, \<lparr>W = of_mat n [(gd_step \<eta> X y ^^ nat epochs) (replicate n 0)], lr = \<eta>\<rparr>)
          \<and> MixedLinearRegression_train (MixedLinearRegression_init n 1 \<eta>) (of_mat n X) (of_vec y) epochs
              = Inr (h2, \<lparr>W_data = of_mat n [(gd_step \<eta> X y ^^ nat epochs) (replicate n 0)],
                          W_grad = g, mixed_lr = \<eta>\<rparr>)"
    unfolding LinearRegression_train_def MixedLinearRegression_train_def
      LinearRegression_init_row MixedLinearRegression_init_row
      train_loop_real[OF assms w0] mixed_train_loop_real[OF assms w0 disjI1[OF refl]]
    by blast
qed

theorem hand_gradient_is_autograd_gradient_witness:
  "list_all (\<lambda>x. length x = 2) [[1, 2], [3, 4::real]] \<and> [[1, 2], [3, 4::real]] \<noteq> []
   \<and> length [1, 0::real] = length [[1, 2], [3, 4::real]]
   \<and> LinearRegression_W_grad (of_mat 2 [[1, 2], [3, 4]]) (of_vec [0, 0]) (of_vec [1, 0])
        = Inr (of_vec [-1, -2])
   \<and> (\<exists>h1 h2 g.
         LinearRegression_train (LinearRegression_init 2 1 (1/10)) (of_mat 2 [[1, 2], [3, 4]])
            (of_vec [1, 0]) 1
           = Inr (h1, \<lparr>W = of_mat 2 [[1/10, 1/5]], lr = 1/10\<rparr>)
       \<and> MixedLinearRegression_train (MixedLinearRegression_init 2 1 (1/10))
            (of_mat 2 [[1, 2], [3, 4]]) (of_vec [1, 0]) 1
           = Inr (h2, \<lparr>W_data = of_mat 2 [[1/10, 1/5]], W_grad = g, mixed_lr = 1/10\<rparr>))"
proof -
  have h: "\<forall>x\<in>set [[1, 2], [3, 4::real]]. length x = 2" "[[1, 2], [3, 4::real]] \<noteq> []"
    "length [1, 0::real] = length [[1, 2], [3, 4::real]]"
    by simp_all
  have g: "gradient_spec [0, 0] [[1, 2], [3, 4]] [1, 0] = [-1, -2]"
    by (simp add: gradient_spec_def predict_spec_def column_def upt_rec)
  have p: "predict_spec [0, 0] [[1, 2], [3, 4]] = [0, 0]"
    by (simp add: predict_spec_def)
  have s: "(gd_step (1/10) [[1, 2], [3, 4]] [1, 0] ^^ nat 1) (replicate 2 0) = [1/10, 1/5]"
    using g by (simp add: gd_step_def numeral_2_eq_2)
  note T = hand_gradient_is_autograd_gradient[OF h, of "1/10" 1]
  have A: "LinearRegression_W_grad (of_mat 2 [[1, 2], [3, 4]]) (of_vec [0, 0]) (of_vec [1, 0])
        = Inr (of_vec [-1, -2])"
    using conjunct1[OF T, THEN spec, of "[0, 0]"] g p by simp
  have B: "\<exists>h1 h2 g.
         LinearRegression_train (LinearRegression_init 2 1 (1/10)) (of_mat 2 [[1, 2], [3, 4]])
            (of_vec [1, 0]) 1
           = Inr (h1, \<lparr>W = of_mat 2 [[1/10, 1/5]], lr = 1/10\<rparr>)
       \<and> MixedLinearRegression_train (MixedLinearRegression_init 2 1 (1/10))
            (of_mat 2 [[1, 2], [3, 4]]) (of_vec [1, 0]) 1
           = Inr (h2, \<lparr>W_data = of_mat 2 [[1/10, 1/5]], W_grad = g, mixed_lr = 1/10\<rparr>)"
    using conjunct2[OF T] unfolding s .
  show ?thesis
    using A B by simp
qed

text \<open>
  Claim C2 says that the three training loops return equal loss histories. They do not:
  on one example with feature \<open>1\<close> and label \<open>1\<close>, after two epochs with learning rate
  \<open>0.01\<close>, \<^verbatim>\<open>LinearRegression.train\<close> returns \<open>[0.9604, 0.92236816]\<close>,
  \<^verbatim>\<open>MixedLinearRegression.train\<close> returns \<open>[1, 0.9604]\<close>, and the framework \<^verbatim>\<open>train\<close>,
  even when its layer starts from zero weight and zero bias, returns \<open>[1, 0.9216]\<close>.
\<close>

theorem loss_histories_counterexample:
  "LinearRegression_train (LinearRegression_init 1 1 (1/100)) (of_mat 1 [[1]]) (of_vec [1]) 2
     = Inr ([Num (2401/2500), Num (5764801/6250000)],
            \<lparr>W = of_mat 1 [[99/2500]], lr = 1/100\<rparr>)
   \<and> MixedLinearRegression_train (MixedLinearRegression_init 1 1 (1/100)) (of_mat 1 [[1]])
       (of_vec [1]) 2
     = Inr ([Num 1, Num (2401/2500)],
            \<lparr>W_data = of_mat 1 [[99/2500]], W_grad = Some (zeros2 1 1), mixed_lr = 1/100\<rparr>)
   \<and> train (LinReg_init 1 (\<lambda>j. 0) 0) (of_mat 1 [[1]]) (of_mat 1 [[1]]) 2
     = Inr ([Num 1, Num (576/625)],
            \<lparr>beta_weight = of_mat 1 [[49/1250]], beta_bias = of_vec [49/1250],
             beta_weight_grad = Some (of_mat 1 [[- (48/25)]]),
             beta_bias_grad = Some (of_vec [- (48/25)])\<rparr>)
   \<and> [Num (2401/2500), Num (5764801/6250000)] \<noteq> [Num 1, Num (2401/2500)]
   \<and> [Num 1, Num (2401/2500)] \<noteq> [Num 1, Num (576/625)]
   \<and> [Num (2401/2500), Num (5764801/6250000)] \<noteq> [Num 1, Num (576/625)]"
  using example_train_two_epochs example_framework_train by simp

text \<open>
  Claim C2, amended. The three histories are related, not equal, and the relation is one
  of exact arithmetic: the entries named below are equal as real numbers. The notebook
  computes \<^verbatim>\<open>LinearRegression\<close> in \<^verbatim>\<open>float64\<close> and the two others in \<^verbatim>\<open>float32\<close>, and the
  classes do not multiply and add in the same order, so that the floating-point entries
  agree up to rounding only. In exact arithmetic, for a dataset of \<open>m \<ge> 1\<close> examples with
  real entries and \<open>epochs \<ge> 0\<close>: \<^verbatim>\<open>LinearRegression.train\<close> records the loss after each
  update and \<^verbatim>\<open>MixedLinearRegression.train\<close> before it, on the same sequence of weights,
  so that the history of \<^verbatim>\<open>MixedLinearRegression.train(X, y, epochs + 1)\<close> is the mean of
  the squared labels followed by the history of \<^verbatim>\<open>LinearRegression.train(X, y, epochs)\<close>.
  The framework \<^verbatim>\<open>train\<close>, whose layer has a bias and starts from the weight \<open>a0\<close> and the
  bias \<open>b0\<close> that the library draws, returns the history that
  \<^verbatim>\<open>MixedLinearRegression.train\<close> returns with learning rate \<open>0.01\<close> and weights
  \<open>(b0, a0)\<close> on the dataset with a constant feature \<open>1\<close> in front of every example.
\<close>

theorem loss_histories_related:
  assumes "\<forall>x\<in>set X. length x = n" and "X \<noteq> []" and "length y = length X" and "0 \<le> epochs"
  shows "(\<exists>h s1 s2.
            LinearRegression_train (LinearRegression_init n 1 \<eta>) (of_mat n X) (of_vec y) epochs
              = Inr (h, s1)
          \<and> MixedLinearRegression_train (MixedLinearRegression_init n 1 \<eta>) (of_mat n X) (of_vec y)
              (epochs + 1)
              = Inr (Num (sum_list (map (\<lambda>v. v\<^sup>2) y) / real (length y)) # h, s2))
       \<and> (\<exists>h s3 s4.
            train (LinReg_init n a0 b0) (of_mat n X) (of_mat 1 (map (\<lambda>v. [v]) y)) epochs
              = Inr (h, s3)
          \<and> MixedLinearRegression_train
              \<lparr>W_data = of_mat (Suc n) [b0 # map a0 [0..<n]], W_grad = None,
               mixed_lr = optimizer_lr\<rparr>
              (of_mat (Suc n) (augment X)) (of_vec y) epochs
              = Inr (h, s4))"
proof (rule conjI)
  have w0: "length (replicate n (0::real)) = n" by simp
  have k: "nat (epochs + 1) = Suc (nat epochs)"
    using assms(4) by simp
  have first: "mse_spec (predict_spec (replicate n 0) X) y
      = sum_list (map (\<lambda>v. v\<^sup>2) y) / real (length y)"
    unfolding predict_spec_zero by (rule mse_spec_zero[OF assms(3)])
  have shift: "map (\<lambda>i. Num (mse_spec (predict_spec ((gd_step \<eta> X y ^^ i) (replicate n 0)) X) y))
        [0..<Suc (nat epochs)]
      = Num (sum_list (map (\<lambda>v. v\<^sup>2) y) / real (length y))
        # map (\<lambda>i. Num (mse_spec (predict_spec ((gd_step \<eta> X y ^^ Suc i) (replicate n 0)) X) y))
            [0..<nat epochs]"
    by (simp only: map_upt_Suc) (simp add: first)
  show "\<exists>h s1 s2.
            LinearRegression_train (LinearRegression_init n 1 \<eta>) (of_mat n X) (of_vec y) epochs
              = Inr (h, s1)
          \<and> MixedLinearRegression_train (MixedLinearRegression_init n 1 \<eta>) (of_mat n X) (of_vec y)
              (epochs + 1)
              = Inr (Num (sum_list (map (\<lambda>v. v\<^sup>2) y) / real (length y)) # h, s2)"
    unfolding LinearRegression_train_def MixedLinearRegression_train_def
      LinearRegression_init_row MixedLinearRegression_init_row k
      train_loop_real[OF assms(1-3) w0] mixed_train_loop_real[OF assms(1-3) w0 disjI1[OF refl]]
      shift
    by simp
next
  show "\<exists>h s3 s4.
            train (LinReg_init n a0 b0) (of_mat n X) (of_mat 1 (map (\<lambda>v. [v]) y)) epochs
              = Inr (h, s3)
          \<and> MixedLinearRegression_train
              \<lparr>W_data = of_mat (Suc n) [b0 # map a0 [0..<n]], W_grad = None,
               mixed_lr = optimizer_lr\<rparr>
              (of_mat (Suc n) (augment X)) (of_vec y) epochs
              = Inr (h, s4)"
    by (rule framework_is_mixed_with_bias_feature[OF assms(1-3)])
qed

theorem loss_histories_related_witness:
  "list_all (\<lambda>x. length x = 1) [[1::real]] \<and> [[1::real]] \<noteq> [] \<and> length [1::real] = length [[1::real]]
   \<and> (0::int) \<le> 2
   \<and> (\<exists>s1 s2.
         LinearRegression_train (LinearRegression_init 1 1 (1/100)) (of_mat 1 [[1]]) (of_vec [1]) 2
           = Inr ([Num (2401/2500), Num (5764801/6250000)], s1)
       \<and> MixedLinearRegression_train (MixedLinearRegression_init 1 1 (1/100)) (of_mat 1 [[1]])
           (of_vec [1]) 3
           = Inr ([Num 1, Num (2401/2500), Num (5764801/6250000)], s2))
   \<and> (\<exists>s3 s4.
         train (LinReg_init 1 (\<lambda>j. 0) 0) (of_mat 1 [[1]]) (of_mat 1 [[1]]) 2
           = Inr ([Num 1, Num (576/625)], s3)
       \<and> MixedLinearRegression_train
           \<lparr>W_data = of_mat 2 [[0, 0]], W_grad = None, mixed_lr = 1/100\<rparr>
           (of_mat 2 [[1, 1]]) (of_vec [1]) 2
           = Inr ([Num 1, Num (576/625)], s4))"
proof -
  have h: "\<forall>x\<in>set [[1::real]]. length x = 1" "[[1::real]] \<noteq> []"
    "length [1::real] = length [[1::real]]" "(0::int) \<le> 2"
    by simp_all
  note T = loss_histories_related[OF h, of "1/100" "\<lambda>j. 0" 0]
  obtain hh s1 s2 where A:
    "LinearRegression_train (LinearRegression_init 1 1 (1/100)) (of_mat 1 [[1]]) (of_vec [1]) 2
       = Inr (hh, s1)"
    "MixedLinearRegression_train (MixedLinearRegression_init 1 1 (1/100)) (of_mat 1 [[1]])
       (of_vec [1]) (2 + 1)
       = Inr (Num (sum_list (map (\<lambda>v. v\<^sup>2) [1]) / real (length [1::real])) # hh, s2)"
    using conjunct1[OF T] by blast
  have "hh = [Num (2401/2500), Num (5764801/6250000)]"
    using A(1) example_train_two_epochs(1) by simp
  then have F1: "\<exists>s1 s2.
         LinearRegression_train (LinearRegression_init 1 1 (1/100)) (of_mat 1 [[1]]) (of_vec [1]) 2
           = Inr ([Num (2401/2500), Num (5764801/6250000)], s1)
       \<and> MixedLinearRegression_train (MixedLinearRegression_init 1 1 (1/100)) (of_mat 1 [[1]])
           (of_vec [1]) 3
           = Inr ([Num 1, Num (2401/2500), Num (5764801/6250000)], s2)"
    using A by auto
  obtain hf s3 s4 where B:
    "train (LinReg_init 1 (\<lambda>j. 0) 0) (of_mat 1 [[1]]) (of_mat 1 (map (\<lambda>v. [v]) [1])) 2
       = Inr (hf, s3)"
    "MixedLinearRegression_train
       \<lparr>W_data = of_mat (Suc 1) [0 # map (\<lambda>j. 0) [0..<1]], W_grad = None, mixed_lr = optimizer_lr\<rparr>
       (of_mat (Suc 1) (augment [[1]])) (of_vec [1]) 2
       = Inr (hf, s4)"
    using conjunct2[OF T] by blast
  have "hf = [Num 1, Num (576/625)]"
    using B(1) example_framework_train by simp
  then have F2: "\<exists>s3 s4.
         train (LinReg_init 1 (\<lambda>j. 0) 0) (of_mat 1 [[1]]) (of_mat 1 [[1]]) 2
           = Inr ([Num 1, Num (576/625)], s3)
       \<and> MixedLinearRegression_train
           \<lparr>W_data = of_mat 2 [[0, 0]], W_grad = None, mixed_lr = 1/100\<rparr>
           (of_mat 2 [[1, 1]]) (of_vec [1]) 2
           = Inr ([Num 1, Num (576/625)], s4)"
    using B by (auto simp: augment_def optimizer_lr_def numeral_2_eq_2)
  show ?thesis
    using F1 F2 by simp
qed

text \<open>
  Claim C3. For a dataset of \<open>m \<ge> 1\<close> examples, one call of
  \<^verbatim>\<open>LinearRegression.update_weight(X, y)\<close> replaces the weights \<open>W\<close> by
  \<open>W - lr * (2 / m) * X\<^sup>T (predict(X) - y)\<close>, and \<open>(2 / m) * X\<^sup>T (predict(X) - y)\<close> is the
  gradient of the mean squared error of the linear prediction: its \<open>j\<close>-th entry is the
  derivative of the error with respect to the \<open>j\<close>-th weight. So the call is one step of
  gradient descent with step size \<open>lr\<close>.
\<close>

theorem update_weight_is_gradient_step:
  assumes "\<forall>x\<in>set X. length x = n" and "X \<noteq> []" and "length y = length X"
    and "length w = n"
  shows "LinearRegression_update_weight \<lparr>W = of_mat n [w], lr = \<eta>\<rparr> (of_mat n X) (of_vec y)
           = Inr \<lparr>W = of_mat n
                    [map (\<lambda>j. w ! j - \<eta> * (2 / real (length X)
                           * (\<Sum>i<length X. X ! i ! j * (predict_spec w X ! i - y ! i))))
                       [0..<n]],
                  lr = \<eta>\<rparr>
       \<and> (\<forall>j<n. ((\<lambda>t. mse_spec (predict_spec (w[j := t]) X) y) has_field_derivative
                    2 / real (length X)
                      * (\<Sum>i<length X. X ! i ! j * (predict_spec w X ! i - y ! i)))
                  (at (w ! j)))"
proof (intro conjI allI impI)
  show "LinearRegression_update_weight \<lparr>W = of_mat n [w], lr = \<eta>\<rparr> (of_mat n X) (of_vec y)
           = Inr \<lparr>W = of_mat n
                    [map (\<lambda>j. w ! j - \<eta> * (2 / real (length X)
                           * (\<Sum>i<length X. X ! i ! j * (predict_spec w X ! i - y ! i))))
                       [0..<n]],
                  lr = \<eta>\<rparr>"
    unfolding update_weight_real[OF assms] gd_step_nth[OF assms(3,4)] ..
next
  fix j assume j: "j < n"
  have wf: "\<forall>x\<in>set X. length x = length w" and jw: "j < length w"
    using assms(1,4) j by simp_all
  show "((\<lambda>t. mse_spec (predict_spec (w[j := t]) X) y) has_field_derivative
                    2 / real (length X)
                      * (\<Sum>i<length X. X ! i ! j * (predict_spec w X ! i - y ! i)))
                  (at (w ! j))"
    using mse_spec_deriv[OF wf jw, of y] gradient_spec_nth[OF assms(3) jw] by simp
qed

theorem update_weight_is_gradient_step_witness:
  "list_all (\<lambda>x. length x = 2) [[1, 2], [3, 4::real]] \<and> [[1, 2], [3, 4::real]] \<noteq> []
   \<and> length [1, 0::real] = length [[1, 2], [3, 4::real]] \<and> length [0, 0::real] = 2
   \<and> LinearRegression_update_weight \<lparr>W = of_mat 2 [[0, 0]], lr = 1/10\<rparr>
        (of_mat 2 [[1, 2], [3, 4]]) (of_vec [1, 0])
      = Inr \<lparr>W = of_mat 2 [[1/10, 1/5]], lr = 1/10\<rparr>
   \<and> ((\<lambda>t. mse_spec (predict_spec ([0, 0][1 := t]) [[1, 2], [3, 4]]) [1, 0])
        has_field_derivative - 2) (at ([0, 0] ! 1))"
proof -
  have h: "\<forall>x\<in>set [[1, 2], [3, 4::real]]. length x = 2" "[[1, 2], [3, 4::real]] \<noteq> []"
    "length [1, 0::real] = length [[1, 2], [3, 4::real]]" "length [0, 0::real] = 2"
    by simp_all
  note T = update_weight_is_gradient_step[OF h, of "1/10"]
  have p: "predict_spec [0, 0] [[1, 2], [3, 4]] = [0, 0]"
    by (simp add: predict_spec_def)
  have two: "{..<2::nat} = {0, 1}" by auto
  have A: "LinearRegression_update_weight \<lparr>W = of_mat 2 [[0, 0]], lr = 1/10\<rparr>
        (of_mat 2 [[1, 2], [3, 4]]) (of_vec [1, 0])
      = Inr \<lparr>W = of_mat 2 [[1/10, 1/5]], lr = 1/10\<rparr>"
    using conjunct1[OF T] by (simp add: p two upt_rec)
  have B: "((\<lambda>t. mse_spec (predict_spec ([0, 0][1 := t]) [[1, 2], [3, 4]]) [1, 0])
        has_field_derivative - 2) (at ([0, 0] ! 1))"
    using conjunct2[OF T, THEN spec, of 1] by (simp add: p two)
  show ?thesis
    using A B by simp
qed

text \<open>
  Claim C4. \<^verbatim>\<open>LinearRegression.train\<close> raises nothing on matching sizes: with a weight
  matrix of shape \<open>(1, n)\<close>, an input \<open>X\<close> of \<open>n\<close> columns and as many labels as \<open>X\<close> has
  rows, it returns a loss history with one entry per epoch, for every epoch count and any
  array contents, also for a dataset of \<open>m = 0\<close> examples. There every division is
  \<open>0 / 0\<close>, which NumPy evaluates to \<open>NaN\<close> with a warning: the history consists of \<open>NaN\<close>.
\<close>

theorem train_returns_on_matching_shapes:
  assumes "ncols X = length w" and "length y = nrows X"
  shows "\<exists>h s. LinearRegression_train \<lparr>W = row2 w, lr = \<eta>\<rparr> X y epochs = Inr (h, s)
               \<and> length h = nat epochs
               \<and> (nrows X = 0 \<longrightarrow> h = replicate (nat epochs) NaN)"
proof -
  have "nrows X = 0 \<longrightarrow>
      map (\<lambda>i. mse1 (mv X ((numpy_step \<eta> X y ^^ Suc i) w)) y) [0..<nat epochs]
        = replicate (nat epochs) NaN"
    by (simp add: mv_empty mse1_empty map_replicate_const)
  then show ?thesis
    unfolding LinearRegression_train_def train_loop_row[OF assms] by simp
qed

theorem train_returns_on_matching_shapes_witness:
  "ncols \<lparr>ncols = 2, rows = []\<rparr> = length [Num 0, Num 0]
   \<and> length ([] :: npfloat list) = nrows \<lparr>ncols = 2, rows = []\<rparr>
   \<and> LinearRegression_train (LinearRegression_init 2 1 (1/100)) \<lparr>ncols = 2, rows = []\<rparr> [] 3
       = Inr ([NaN, NaN, NaN], \<lparr>W = row2 [NaN, NaN], lr = 1/100\<rparr>)"
proof -
  have h: "ncols \<lparr>ncols = 2, rows = []\<rparr> = length [Num 0, Num 0]"
    "length ([] :: npfloat list) = nrows \<lparr>ncols = 2, rows = []\<rparr>"
    by (simp_all add: nrows_def)
  have i: "LinearRegression_init 2 1 (1/100) = \<lparr>W = row2 [Num 0, Num 0], lr = 1/100\<rparr>"
    by (simp add: LinearRegression_init_def zeros2_def row2_def numeral_2_eq_2)
  obtain hh s where T:
    "LinearRegression_train \<lparr>W = row2 [Num 0, Num 0], lr = 1/100\<rparr> \<lparr>ncols = 2, rows = []\<rparr> [] 3
       = Inr (hh, s)" "hh = replicate (nat 3) NaN"
    using train_returns_on_matching_shapes[OF h, of "1/100" 3] by (auto simp: nrows_def)
  have "s = \<lparr>W = row2 [NaN, NaN], lr = 1/100\<rparr>"
    using T(1) unfolding LinearRegression_train_def train_loop_row[OF h]
    by (simp add: numeral_3_eq_3 numpy_step_def numpy_grad_def scalar_mul_def scalar_div_def mv_def
        transpose2_def col_def nrows_def dot1_def finf_def fsub_def upt_rec)
  then show ?thesis
    using T h unfolding i by (simp add: numeral_3_eq_3)
qed

text \<open>
  Claim C5. For \<open>epochs \<ge> 0\<close> and a well-shaped dataset of \<open>m \<ge> 1\<close> examples,
  \<^verbatim>\<open>LinearRegression.train(X, y, epochs)\<close> returns a history of exactly \<open>epochs\<close> entries;
  entry \<open>k\<close> is the loss after \<open>k + 1\<close> weight updates, and the weights it leaves are those
  after \<open>epochs\<close> updates: one update and one recorded loss per iteration, in epoch order.
  The loop is a total function of the epoch count, so it terminates.
\<close>

theorem train_runs_each_epoch_once:
  assumes "\<forall>x\<in>set X. length x = n" and "X \<noteq> []" and "length y = length X"
    and "length w = n" and "0 \<le> epochs"
  shows "\<exists>h s. LinearRegression_train \<lparr>W = of_mat n [w], lr = \<eta>\<rparr> (of_mat n X) (of_vec y) epochs
                 = Inr (h, s)
               \<and> int (length h) = epochs
               \<and> (\<forall>k<length h.
                     h ! k = Num (mse_spec (predict_spec ((gd_step \<eta> X y ^^ Suc k) w) X) y))
               \<and> s = \<lparr>W = of_mat n [(gd_step \<eta> X y ^^ nat epochs) w], lr = \<eta>\<rparr>"
  unfolding LinearRegression_train_def train_loop_real[OF assms(1-4)]
  using assms(5) by simp

theorem train_runs_each_epoch_once_witness:
  "list_all (\<lambda>x. length x = 1) [[1::real]] \<and> [[1::real]] \<noteq> [] \<and> length [1::real] = length [[1::real]]
   \<and> length [0::real] = 1 \<and> (0::int) \<le> 2
   \<and> LinearRegression_train \<lparr>W = of_mat 1 [[0]], lr = 1/4\<rparr> (of_mat 1 [[1]]) (of_vec [1]) 2
       = Inr ([Num (1/4), Num (1/16)], \<lparr>W = of_mat 1 [[3/4]], lr = 1/4\<rparr>)"
proof -
  have h: "\<forall>x\<in>set [[1::real]]. length x = 1" "[[1::real]] \<noteq> []"
    "length [1::real] = length [[1::real]]" "length [0::real] = 1" "(0::int) \<le> 2"
    by simp_all
  have g: "gd_step (1/4) [[1]] [1] [v] = [v - 1/4 * (2 * (v - 1))]" for v
    by (simp add: gd_step_def gradient_spec_def predict_spec_def column_def)
  have g1: "gd_step (1/4) [[1]] [1] [0] = [1/2]" and g2: "gd_step (1/4) [[1]] [1] [1/2] = [3/4]"
    by (simp_all add: g)
  have m: "mse_spec (predict_spec [v] [[1]]) [1] = (v - 1)\<^sup>2" for v
    by (simp add: mse_spec_def predict_spec_def)
  obtain hh s where T:
    "LinearRegression_train \<lparr>W = of_mat 1 [[0]], lr = 1/4\<rparr> (of_mat 1 [[1]]) (of_vec [1]) 2
       = Inr (hh, s)"
    "int (length hh) = 2"
    "\<forall>k<length hh. hh ! k = Num (mse_spec (predict_spec ((gd_step (1/4) [[1]] [1] ^^ Suc k) [0]) [[1]]) [1])"
    "s = \<lparr>W = of_mat 1 [(gd_step (1/4) [[1]] [1] ^^ nat 2) [0]], lr = 1/4\<rparr>"
    using train_runs_each_epoch_once[OF h, of "1/4"] by blast
  have len: "length hh = 2"
    using T(2) by simp
  have "hh ! 0 = Num (1/4)" "hh ! 1 = Num (1/16)"
    using T(3) len by (simp_all add: g1 g2 m power2_eq_square)
  then have "hh = [Num (1/4), Num (1/16)]"
    using len by (intro nth_equalityI) (auto simp: less_Suc_eq numeral_2_eq_2)
  moreover have "s = \<lparr>W = of_mat 1 [[3/4]], lr = 1/4\<rparr>"
    using T(4) by (simp add: numeral_2_eq_2 g1 g2)
  ultimately show ?thesis
    using T(1) by simp
qed







text \<open>
  Claim C8. Training is batch gradient descent: what \<^verbatim>\<open>LinearRegression.train\<close> leaves
  after \<open>epochs\<close> epochs is what \<open>epochs\<close> calls of \<^verbatim>\<open>update_weight(X, y)\<close> on the whole
  dataset leave, one call per epoch, and the weights are \<open>epochs\<close> steps of \<open>gd_step\<close>,
  whose gradient sums over all \<open>m\<close> examples.
\<close>

theorem train_is_batch_gradient_descent:
  assumes "\<forall>x\<in>set X. length x = n" and "X \<noteq> []" and "length y = length X"
    and "length w = n"
  shows "\<exists>h s. LinearRegression_train \<lparr>W = of_mat n [w], lr = \<eta>\<rparr> (of_mat n X) (of_vec y) epochs
                 = Inr (h, s)
               \<and> repeat_update_weight (nat epochs) \<lparr>W = of_mat n [w], lr = \<eta>\<rparr> (of_mat n X) (of_vec y)
                 = Inr s
               \<and> W s = of_mat n [(gd_step \<eta> X y ^^ nat epochs) w]"
proof -
  have c: "ncols (of_mat n X) = length (of_vec w)" and l: "length (of_vec y) = nrows (of_mat n X)"
    using assms by simp_all
  have len: "length ((gd_step \<eta> X y ^^ k) w) = n" for k
    using assms(4) by simp
  have "repeat_update_weight (nat epochs) \<lparr>W = of_mat n [w], lr = \<eta>\<rparr> (of_mat n X) (of_vec y)
      = Inr \<lparr>W = of_mat n [(gd_step \<eta> X y ^^ nat epochs) w], lr = \<eta>\<rparr>"
    using repeat_update_weight_row[OF c l, of "nat epochs" \<eta>]
    by (simp add: row2_of_vec[OF assms(4)] funpow_numpy_step_of[OF assms(1,2,4)] row2_of_vec[OF len])
  then show ?thesis
    unfolding LinearRegression_train_def train_loop_real[OF assms] by simp
qed

theorem train_is_batch_gradient_descent_witness:
  "list_all (\<lambda>x. length x = 1) [[1], [2::real]] \<and> [[1], [2::real]] \<noteq> []
   \<and> length [1, 2::real] = length [[1], [2::real]] \<and> length [0::real] = 1
   \<and> (\<exists>h. LinearRegression_train \<lparr>W = of_mat 1 [[0]], lr = 1/10\<rparr> (of_mat 1 [[1], [2]]) (of_vec [1, 2]) 2
              = Inr (h, \<lparr>W = of_mat 1 [[3/4]], lr = 1/10\<rparr>))
   \<and> repeat_update_weight 2 \<lparr>W = of_mat 1 [[0]], lr = 1/10\<rparr> (of_mat 1 [[1], [2]]) (of_vec [1, 2])
       = Inr \<lparr>W = of_mat 1 [[3/4]], lr = 1/10\<rparr>"
proof -
  have h: "\<forall>x\<in>set [[1], [2::real]]. length x = 1" "[[1], [2::real]] \<noteq> []"
    "length [1, 2::real] = length [[1], [2::real]]" "length [0::real] = 1"
    by simp_all
  have g: "gd_step (1/10) [[1], [2]] [1, 2] [v] = [v - 1/10 * (5 * (v - 1))]" for v
    by (simp add: gd_step_def gradient_spec_def predict_spec_def column_def field_simps)
  have g2: "(gd_step (1/10) [[1], [2]] [1, 2] ^^ nat 2) [0] = [3/4]"
    by (simp add: numeral_2_eq_2 g)
  obtain hh s where T:
    "LinearRegression_train \<lparr>W = of_mat 1 [[0]], lr = 1/10\<rparr> (of_mat 1 [[1], [2]]) (of_vec [1, 2]) 2
       = Inr (hh, s)"
    "repeat_update_weight (nat 2) \<lparr>W = of_mat 1 [[0]], lr = 1/10\<rparr> (of_mat 1 [[1], [2]]) (of_vec [1, 2])
       = Inr s"
    "W s = of_mat 1 [(gd_step (1/10) [[1], [2]] [1, 2] ^^ nat 2) [0]]"
    using train_is_batch_gradient_descent[OF h, of "1/10" 2] by blast
  have "lr s = 1/10"
    using T(1) unfolding LinearRegression_train_def train_loop_real[OF h] by auto
  then have "s = \<lparr>W = of_mat 1 [[3/4]], lr = 1/10\<rparr>"
    using T(3) unfolding g2 by (cases s) simp
  then show ?thesis
    using T by auto
qed

text \<open>
  Claim C9. \<^verbatim>\<open>predict\<close> and \<^verbatim>\<open>loss\<close> of both classes return the object as they found
  it. \<^verbatim>\<open>update_weight\<close> and a whole training run leave the learning rate as it was. In
  \<^verbatim>\<open>MixedLinearRegression\<close>, \<^verbatim>\<open>backward()\<close> and the reset of the gradient change neither
  the weights nor the learning rate, and \<^verbatim>\<open>update_weight\<close> leaves the gradient alone: only
  \<^verbatim>\<open>update_weight\<close> changes \<open>W\<close>.
\<close>

theorem only_update_weight_changes_W:
  "(LinearRegression_predict self X = Inr (r, self') \<longrightarrow> self' = self)
   \<and> (LinearRegression_loss self y_hat y = Inr (l, self') \<longrightarrow> self' = self)
   \<and> (LinearRegression_update_weight self X y = Inr self' \<longrightarrow> lr self' = lr self)
   \<and> (LinearRegression_train self X y epochs = Inr (h, self') \<longrightarrow> lr self' = lr self)
   \<and> (MixedLinearRegression_predict m X = Inr (t, m') \<longrightarrow> m' = m)
   \<and> (MixedLinearRegression_loss m t y = Inr (tloss, m') \<longrightarrow> m' = m)
   \<and> W_data (backward m tloss) = W_data m \<and> mixed_lr (backward m tloss) = mixed_lr m
   \<and> (MixedLinearRegression_update_weight m = Inr m' \<longrightarrow>
        mixed_lr m' = mixed_lr m \<and> W_grad m' = W_grad m)
   \<and> (zero_grad m = Inr m' \<longrightarrow> W_data m' = W_data m \<and> mixed_lr m' = mixed_lr m)
   \<and> (MixedLinearRegression_train m X y epochs = Inr (h, m') \<longrightarrow> mixed_lr m' = mixed_lr m)"
  using predict_frame[of self X r self'] loss_frame[of self y_hat y l self']
    update_weight_lr[of self X y self'] train_loop_lr[of "nat epochs" self X y "[]" h self']
    mixed_predict_frame[of m X t m'] mixed_loss_frame[of m t y tloss m']
    backward_frame[of m tloss] mixed_update_weight_frame[of m m'] zero_grad_frame[of m m']
    mixed_train_loop_lr[of "nat epochs" m X y "[]" h m']
  unfolding LinearRegression_train_def MixedLinearRegression_train_def
  by blast

theorem only_update_weight_changes_W_witness:
  "(\<exists>r. LinearRegression_predict \<lparr>W = of_mat 1 [[0]], lr = 1/4\<rparr> (of_mat 1 [[1]])
          = Inr (r, \<lparr>W = of_mat 1 [[0]], lr = 1/4\<rparr>))
   \<and> (\<exists>l. LinearRegression_loss \<lparr>W = of_mat 1 [[0]], lr = 1/4\<rparr> (of_vec [0]) (of_vec [1])
          = Inr (l, \<lparr>W = of_mat 1 [[0]], lr = 1/4\<rparr>))
   \<and> (\<exists>s. LinearRegression_update_weight \<lparr>W = of_mat 1 [[0]], lr = 1/4\<rparr> (of_mat 1 [[1]]) (of_vec [1])
          = Inr s \<and> lr s = 1/4)
   \<and> (\<exists>h s. LinearRegression_train \<lparr>W = of_mat 1 [[0]], lr = 1/4\<rparr> (of_mat 1 [[1]]) (of_vec [1]) 2
          = Inr (h, s) \<and> lr s = 1/4)
   \<and> (\<exists>t. MixedLinearRegression_predict
            \<lparr>W_data = of_mat 1 [[0]], W_grad = None, mixed_lr = 1/4\<rparr> (of_mat 1 [[1]])
          = Inr (t, \<lparr>W_data = of_mat 1 [[0]], W_grad = None, mixed_lr = 1/4\<rparr>))
   \<and> (\<exists>l. MixedLinearRegression_loss \<lparr>W_data = of_mat 1 [[0]], W_grad = None, mixed_lr = 1/4\<rparr>
            (Tensor1 (of_vec [0], unsqueeze)) (of_vec [1])
          = Inr (l, \<lparr>W_data = of_mat 1 [[0]], W_grad = None, mixed_lr = 1/4\<rparr>))
   \<and> (\<exists>s. MixedLinearRegression_update_weight
            \<lparr>W_data = of_mat 1 [[0]], W_grad = Some (of_mat 1 [[-2]]), mixed_lr = 1/4\<rparr>
          = Inr s \<and> mixed_lr s = 1/4 \<and> W_grad s = Some (of_mat 1 [[-2]]))
   \<and> (\<exists>s. zero_grad \<lparr>W_data = of_mat 1 [[1/2]], W_grad = Some (of_mat 1 [[-2]]), mixed_lr = 1/4\<rparr>
          = Inr s \<and> W_data s = of_mat 1 [[1/2]] \<and> mixed_lr s = 1/4)
   \<and> (\<exists>h s. MixedLinearRegression_train
            \<lparr>W_data = of_mat 1 [[0]], W_grad = None, mixed_lr = 1/4\<rparr> (of_mat 1 [[1]]) (of_vec [1]) 2
          = Inr (h, s) \<and> mixed_lr s = 1/4)"
proof -
  let ?L = "\<lparr>W = of_mat 1 [[0]], lr = 1/4\<rparr>"
  let ?M = "\<lparr>W_data = of_mat 1 [[0]], W_grad = None, mixed_lr = 1/4\<rparr>"
  let ?M1 = "\<lparr>W_data = of_mat 1 [[0]], W_grad = Some (of_mat 1 [[-2]]), mixed_lr = 1/4\<rparr>"
  let ?M2 = "\<lparr>W_data = of_mat 1 [[1/2]], W_grad = Some (of_mat 1 [[-2]]), mixed_lr = 1/4\<rparr>"
  let ?X = "of_mat 1 [[1]]"
  let ?y = "of_vec [1]"
  have h: "\<forall>x\<in>set [[1::real]]. length x = 1" "[[1::real]] \<noteq> []"
    "length [1::real] = length [[1::real]]" "length [0::real] = 1"
    by simp_all
  have c: "ncols ?X = length (of_vec [0])" and len: "length (of_vec [0]) = length ?y"
    by simp_all
  obtain r s where p: "LinearRegression_predict ?L ?X = Inr (r, s)"
    using predict_real[OF h(4), of "1/4" "[[1]]"] by simp
  have F1: "\<exists>r. LinearRegression_predict ?L ?X = Inr (r, ?L)"
    using only_update_weight_changes_W[of ?L ?X r s] p by auto
  obtain l s where q: "LinearRegression_loss ?L (of_vec [0]) ?y = Inr (l, s)"
    using loss_eq_len[OF len, of ?L] by simp
  have F2: "\<exists>l. LinearRegression_loss ?L (of_vec [0]) ?y = Inr (l, ?L)"
    using only_update_weight_changes_W[of ?L _ _ s "of_vec [0]" ?y l] q by auto
  obtain s where u: "LinearRegression_update_weight ?L ?X ?y = Inr s"
    using update_weight_real[OF h, of "1/4"] by simp
  have F3: "\<exists>s. LinearRegression_update_weight ?L ?X ?y = Inr s \<and> lr s = 1/4"
    using only_update_weight_changes_W[of ?L ?X _ s _ ?y] u by auto
  obtain hh s where t: "LinearRegression_train ?L ?X ?y 2 = Inr (hh, s)"
    unfolding LinearRegression_train_def train_loop_real[OF h] by simp
  have F4: "\<exists>h s. LinearRegression_train ?L ?X ?y 2 = Inr (h, s) \<and> lr s = 1/4"
    using only_update_weight_changes_W[of ?L ?X _ s _ ?y _ 2 hh] t by auto
  obtain tt s where mp: "MixedLinearRegression_predict ?M ?X = Inr (tt, s)"
    using mixed_predict_row[OF c, of None "1/4"] by (simp add: row2_of_vec[OF h(4)])
  have F5: "\<exists>t. MixedLinearRegression_predict ?M ?X = Inr (t, ?M)"
    using only_update_weight_changes_W[of _ ?X _ _ _ _ _ _ _ ?M tt s] mp by auto
  obtain ll s where ml: "MixedLinearRegression_loss ?M (Tensor1 (of_vec [0], unsqueeze)) ?y = Inr (ll, s)"
    using mixed_loss_row[OF len, of ?M unsqueeze] by simp
  have F6: "\<exists>l. MixedLinearRegression_loss ?M (Tensor1 (of_vec [0], unsqueeze)) ?y = Inr (l, ?M)"
    using only_update_weight_changes_W[of _ _ _ _ _ ?y _ _ _ ?M "Tensor1 (of_vec [0], unsqueeze)" s ll] ml
    by auto
  obtain s where mu: "MixedLinearRegression_update_weight ?M1 = Inr s"
    by (simp add: MixedLinearRegression_update_weight_def)
  have F7: "\<exists>s. MixedLinearRegression_update_weight ?M1 = Inr s \<and> mixed_lr s = 1/4
      \<and> W_grad s = Some (of_mat 1 [[-2]])"
    using only_update_weight_changes_W[of _ _ _ _ _ _ _ _ _ ?M1 _ s] mu by auto
  obtain s where z: "zero_grad ?M2 = Inr s"
    by (simp add: zero_grad_def)
  have F8: "\<exists>s. zero_grad ?M2 = Inr s \<and> W_data s = of_mat 1 [[1/2]] \<and> mixed_lr s = 1/4"
    using only_update_weight_changes_W[of _ _ _ _ _ _ _ _ _ ?M2 _ s] z by auto
  obtain hh s where mt: "MixedLinearRegression_train ?M ?X ?y 2 = Inr (hh, s)"
    unfolding MixedLinearRegression_train_def mixed_train_loop_real[OF h disjI1[OF refl]] by simp
  have F9: "\<exists>h s. MixedLinearRegression_train ?M ?X ?y 2 = Inr (h, s) \<and> mixed_lr s = 1/4"
    using only_update_weight_changes_W[of _ ?X _ _ _ ?y _ 2 hh ?M _ s] mt by auto
  show ?thesis
    using F1 F2 F3 F4 F5 F6 F7 F8 F9 by blast
qed

text \<open>
  Claim C10 says that every first-epoch prediction is exactly zero. In
  \<^verbatim>\<open>LinearRegression.train\<close> the prediction whose loss is recorded is made after the first
  update: with one example of feature \<open>1\<close> and label \<open>1\<close> and learning rate \<open>0.01\<close> the
  update moves the weight to \<open>0.02\<close>, the prediction is \<open>0.02\<close> and the recorded loss
  \<open>0.9604\<close>.
\<close>

theorem first_epoch_prediction_counterexample:
  "LinearRegression_update_weight (LinearRegression_init 1 1 (1/100)) (of_mat 1 [[1]]) (of_vec [1])
     = Inr \<lparr>W = of_mat 1 [[1/50]], lr = 1/100\<rparr>
   \<and> LinearRegression_predict \<lparr>W = of_mat 1 [[1/50]], lr = 1/100\<rparr> (of_mat 1 [[1]])
     = Inr (of_vec [1/50], \<lparr>W = of_mat 1 [[1/50]], lr = 1/100\<rparr>)
   \<and> of_vec [1/50] \<noteq> of_vec [0]
   \<and> LinearRegression_train (LinearRegression_init 1 1 (1/100)) (of_mat 1 [[1]]) (of_vec [1]) 1
     = Inr ([Num (2401/2500)], \<lparr>W = of_mat 1 [[1/50]], lr = 1/100\<rparr>)"
proof -
  have h: "\<forall>x\<in>set [[1::real]]. length x = 1" "[[1::real]] \<noteq> []"
    "length [1::real] = length [[1::real]]" "length [0::real] = 1"
    by simp_all
  have i: "LinearRegression_init 1 1 (1/100) = \<lparr>W = of_mat 1 [[0]], lr = 1/100\<rparr>"
    using LinearRegression_init_row[of 1 "1/100"] by simp
  have g: "gd_step (1/100) [[1]] [1] [0] = [1/50]"
    by (simp add: gd_step_def gradient_spec_def predict_spec_def column_def)
  have p: "predict_spec [1/50] [[1::real]] = [1/50]"
    by (simp add: predict_spec_def)
  have m: "mse_spec [1/50] [1] = 2401/2500"
    by (simp add: mse_spec_def power2_eq_square)
  have A: "LinearRegression_update_weight (LinearRegression_init 1 1 (1/100)) (of_mat 1 [[1]]) (of_vec [1])
     = Inr \<lparr>W = of_mat 1 [[1/50]], lr = 1/100\<rparr>"
    unfolding i update_weight_real[OF h] g ..
  have B: "LinearRegression_predict \<lparr>W = of_mat 1 [[1/50]], lr = 1/100\<rparr> (of_mat 1 [[1]])
     = Inr (of_vec [1/50], \<lparr>W = of_mat 1 [[1/50]], lr = 1/100\<rparr>)"
    using predict_real[of "[1/50]" 1 "1/100" "[[1]]"] unfolding p by simp
  have C: "of_vec [1/50] \<noteq> of_vec [0]"
    by (simp add: of_vec_def)
  have D: "LinearRegression_train (LinearRegression_init 1 1 (1/100)) (of_mat 1 [[1]]) (of_vec [1]) 1
     = Inr ([Num (2401/2500)], \<lparr>W = of_mat 1 [[1/50]], lr = 1/100\<rparr>)"
    unfolding i LinearRegression_train_def train_loop_real[OF h]
    by (simp add: g p m)
  show ?thesis
    using A B C D by blast
qed

text \<open>
  Claim C10, amended. Both constructors set \<open>W\<close> to the all-zero matrix of shape
  \<open>(n_targets, n_features)\<close>, with no randomness. Consequently \<^verbatim>\<open>predict\<close> on a newly
  constructed object (with one target) returns exactly zero for every example of a real
  input, and the first loss that \<^verbatim>\<open>MixedLinearRegression.train\<close> records, which it
  computes before any update, is the mean of the squares of the labels.
\<close>

theorem initial_weights_are_zero:
  "W (LinearRegression_init n_features n_targets \<eta>)
     = \<lparr>ncols = n_features, rows = replicate n_targets (replicate n_features (Num 0))\<rparr>
   \<and> W_data (MixedLinearRegression_init n_features n_targets \<eta>)
     = \<lparr>ncols = n_features, rows = replicate n_targets (replicate n_features (Num 0))\<rparr>
   \<and> LinearRegression_predict (LinearRegression_init n 1 \<eta>) (of_mat n X)
     = Inr (replicate (length X) (Num 0), LinearRegression_init n 1 \<eta>)
   \<and> (\<exists>bk. MixedLinearRegression_predict (MixedLinearRegression_init n 1 \<eta>) (of_mat n X)
            = Inr (Tensor1 (replicate (length X) (Num 0), bk), MixedLinearRegression_init n 1 \<eta>))
   \<and> ((\<forall>x\<in>set X. length x = n) \<and> X \<noteq> [] \<and> length y = length X \<and> 0 < epochs \<longrightarrow>
        (\<exists>h s. MixedLinearRegression_train (MixedLinearRegression_init n 1 \<eta>) (of_mat n X)
                  (of_vec y) epochs
                = Inr (Num (sum_list (map (\<lambda>v. v\<^sup>2) y) / real (length y)) # h, s)))"
proof (intro conjI impI)
  show "W (LinearRegression_init n_features n_targets \<eta>)
     = \<lparr>ncols = n_features, rows = replicate n_targets (replicate n_features (Num 0))\<rparr>"
    by (simp add: LinearRegression_init_def zeros2_def)
  show "W_data (MixedLinearRegression_init n_features n_targets \<eta>)
     = \<lparr>ncols = n_features, rows = replicate n_targets (replicate n_features (Num 0))\<rparr>"
    by (simp add: MixedLinearRegression_init_def zeros2_def)
  have w0: "length (replicate n (0::real)) = n" by simp
  show "LinearRegression_predict (LinearRegression_init n 1 \<eta>) (of_mat n X)
     = Inr (replicate (length X) (Num 0), LinearRegression_init n 1 \<eta>)"
    unfolding LinearRegression_init_row predict_real[OF w0] predict_spec_zero
    by (simp add: replicate_of_vec)
  have c: "ncols (of_mat n X) = length (of_vec (replicate n 0))"
    by simp
  show "\<exists>bk. MixedLinearRegression_predict (MixedLinearRegression_init n 1 \<eta>) (of_mat n X)
            = Inr (Tensor1 (replicate (length X) (Num 0), bk), MixedLinearRegression_init n 1 \<eta>)"
    unfolding MixedLinearRegression_init_row
    using mixed_predict_row[OF c, of None \<eta>]
    by (simp add: row2_of_vec[OF w0] mv_of_mat predict_spec_zero replicate_of_vec)
next
  assume a: "(\<forall>x\<in>set X. length x = n) \<and> X \<noteq> [] \<and> length y = length X \<and> 0 < epochs"
  then obtain k where k: "nat epochs = Suc k"
    by (cases "nat epochs") auto
  have w0: "length (replicate n (0::real)) = n" by simp
  have wf: "\<forall>x\<in>set X. length x = n" and ne: "X \<noteq> []" and ly: "length y = length X"
    using a by simp_all
  have first: "mse_spec (predict_spec (replicate n 0) X) y
      = sum_list (map (\<lambda>v. v\<^sup>2) y) / real (length y)"
    unfolding predict_spec_zero by (rule mse_spec_zero[OF ly])
  show "\<exists>h s. MixedLinearRegression_train (MixedLinearRegression_init n 1 \<eta>) (of_mat n X)
                  (of_vec y) epochs
                = Inr (Num (sum_list (map (\<lambda>v. v\<^sup>2) y) / real (length y)) # h, s)"
    unfolding MixedLinearRegression_train_def MixedLinearRegression_init_row k
      mixed_train_loop_real[OF wf ne ly w0 disjI1[OF refl]]
    by (simp only: map_upt_Suc) (simp add: first)
qed

theorem initial_weights_are_zero_witness:
  "list_all (\<lambda>x. length x = 2) [[1, 2], [3, 4::real]] \<and> [[1, 2], [3, 4::real]] \<noteq> []
   \<and> length [1, 3::real] = length [[1, 2], [3, 4::real]] \<and> (0::int) < 1
   \<and> W (LinearRegression_init 2 1 (1/100)) = \<lparr>ncols = 2, rows = [[Num 0, Num 0]]\<rparr>
   \<and> LinearRegression_predict (LinearRegression_init 2 1 (1/100)) (of_mat 2 [[1, 2], [3, 4]])
       = Inr ([Num 0, Num 0], LinearRegression_init 2 1 (1/100))
   \<and> (\<exists>s. MixedLinearRegression_train (MixedLinearRegression_init 2 1 (1/100))
              (of_mat 2 [[1, 2], [3, 4]]) (of_vec [1, 3]) 1
            = Inr ([Num 5], s))"
proof -
  note T = initial_weights_are_zero[of 2 1 "1/100" 2 "[[1, 2], [3, 4]]" "[1, 3]" 1]
  have h: "(\<forall>x\<in>set [[1, 2], [3, 4::real]]. length x = 2) \<and> [[1, 2], [3, 4::real]] \<noteq> []
      \<and> length [1, 3::real] = length [[1, 2], [3, 4::real]] \<and> (0::int) < 1"
    by simp
  have A: "W (LinearRegression_init 2 1 (1/100)) = \<lparr>ncols = 2, rows = [[Num 0, Num 0]]\<rparr>"
    using T by (simp add: numeral_2_eq_2)
  have B: "LinearRegression_predict (LinearRegression_init 2 1 (1/100)) (of_mat 2 [[1, 2], [3, 4]])
       = Inr ([Num 0, Num 0], LinearRegression_init 2 1 (1/100))"
    using T by (simp add: numeral_2_eq_2)
  obtain hh s where C: "MixedLinearRegression_train (MixedLinearRegression_init 2 1 (1/100))
              (of_mat 2 [[1, 2], [3, 4]]) (of_vec [1, 3]) 1
            = Inr (Num (sum_list (map (\<lambda>v. v\<^sup>2) [1, 3]) / real (length [1, 3::real])) # hh, s)"
    using T h by blast
  have "length (Num (sum_list (map (\<lambda>v. v\<^sup>2) [1, 3]) / real (length [1, 3::real])) # hh) = 1"
    using C mixed_train_loop_real[of "[[1, 2], [3, 4]]" 2 "[1, 3]" "replicate 2 0" None 1 "1/100"]
    unfolding MixedLinearRegression_train_def MixedLinearRegression_init_row
    by (auto simp: numeral_2_eq_2)
  then have "hh = []" by simp
  then show ?thesis
    using A B C by simp
qed

end
